theory Spec2Isabelle
  imports Complex_Main
begin

section \<open>Numbers and sequences as the Python program has them\<close>

text \<open>
  Every number the strategy handles is a numpy \<^verbatim>\<open>float64\<close>. The embedding keeps the
  special values that decide the program's control flow (NaN and the two infinities) and
  takes the finite values as reals: rounding, overflow of finite arithmetic and the sign
  of zero are not modelled (a zero is the positive zero).
\<close>

datatype float64 = NaN | NInf | Fin real | PInf

fun isnan :: "float64 \<Rightarrow> bool" where
  "isnan NaN = True"
| "isnan _ = False"

fun isfinite :: "float64 \<Rightarrow> bool" where
  "isfinite (Fin _) = True"
| "isfinite _ = False"

fun fneg :: "float64 \<Rightarrow> float64" where
  "fneg NaN = NaN"
| "fneg NInf = PInf"
| "fneg (Fin a) = Fin (- a)"
| "fneg PInf = NInf"

fun fabs :: "float64 \<Rightarrow> float64" where
  "fabs NaN = NaN"
| "fabs NInf = PInf"
| "fabs (Fin a) = Fin \<bar>a\<bar>"
| "fabs PInf = PInf"

fun fadd :: "float64 \<Rightarrow> float64 \<Rightarrow> float64" where
  "fadd NaN _ = NaN"
| "fadd _ NaN = NaN"
| "fadd (Fin a) (Fin b) = Fin (a + b)"
| "fadd PInf NInf = NaN"
| "fadd NInf PInf = NaN"
| "fadd PInf _ = PInf"
| "fadd _ PInf = PInf"
| "fadd NInf _ = NInf"
| "fadd _ NInf = NInf"

definition fsub :: "float64 \<Rightarrow> float64 \<Rightarrow> float64" where
  "fsub x y = fadd x (fneg y)"

fun fmul :: "float64 \<Rightarrow> float64 \<Rightarrow> float64" where
  "fmul NaN _ = NaN"
| "fmul _ NaN = NaN"
| "fmul (Fin a) (Fin b) = Fin (a * b)"
| "fmul (Fin a) PInf = (if a = 0 then NaN else if 0 < a then PInf else NInf)"
| "fmul (Fin a) NInf = (if a = 0 then NaN else if 0 < a then NInf else PInf)"
| "fmul PInf (Fin b) = (if b = 0 then NaN else if 0 < b then PInf else NInf)"
| "fmul NInf (Fin b) = (if b = 0 then NaN else if 0 < b then NInf else PInf)"
| "fmul PInf PInf = PInf"
| "fmul PInf NInf = NInf"
| "fmul NInf PInf = NInf"
| "fmul NInf NInf = PInf"

fun fdiv :: "float64 \<Rightarrow> float64 \<Rightarrow> float64" where
  "fdiv NaN _ = NaN"
| "fdiv _ NaN = NaN"
| "fdiv (Fin a) (Fin b) =
     (if b = 0 then (if a = 0 then NaN else if 0 < a then PInf else NInf)
      else Fin (a / b))"
| "fdiv (Fin a) PInf = Fin 0"
| "fdiv (Fin a) NInf = Fin 0"
| "fdiv PInf (Fin b) = (if 0 \<le> b then PInf else NInf)"
| "fdiv NInf (Fin b) = (if 0 \<le> b then NInf else PInf)"
| "fdiv PInf PInf = NaN"
| "fdiv PInf NInf = NaN"
| "fdiv NInf PInf = NaN"
| "fdiv NInf NInf = NaN"

text \<open>Comparisons with a NaN operand are false, as in IEEE 754 and numpy.\<close>

fun flt :: "float64 \<Rightarrow> float64 \<Rightarrow> bool" where
  "flt NaN _ = False"
| "flt _ NaN = False"
| "flt (Fin a) (Fin b) = (a < b)"
| "flt PInf _ = False"
| "flt _ NInf = False"
| "flt NInf _ = True"
| "flt _ PInf = True"

definition fgt :: "float64 \<Rightarrow> float64 \<Rightarrow> bool" where
  "fgt x y = flt y x"

fun fle :: "float64 \<Rightarrow> float64 \<Rightarrow> bool" where
  "fle NaN _ = False"
| "fle _ NaN = False"
| "fle (Fin a) (Fin b) = (a \<le> b)"
| "fle NInf _ = True"
| "fle _ PInf = True"
| "fle PInf _ = False"
| "fle _ NInf = False"

definition fge :: "float64 \<Rightarrow> float64 \<Rightarrow> bool" where
  "fge x y = fle y x"

datatype py_error = IndexError | ValueError | AttributeError | RuntimeError

text \<open>
  Python indexing \<^verbatim>\<open>xs[k]\<close>: a negative index counts from the end, an index out of
  range raises \<^verbatim>\<open>IndexError\<close>.
\<close>

definition py_get :: "'a list \<Rightarrow> int \<Rightarrow> py_error + 'a" where
  "py_get xs k =
     (let n = int (length xs); j = (if k < 0 then n + k else k)
      in if 0 \<le> j \<and> j < n then Inr (xs ! nat j) else Inl IndexError)"

section \<open>The signal evaluator: \<^verbatim>\<open>CustomRSIStrategy.next\<close>\<close>

text \<open>
  \<^verbatim>\<open>crossover\<close> is imported from \<^verbatim>\<open>backtesting.lib\<close>. An argument is an array or a
  number, and a number \<^verbatim>\<open>n\<close> is read as the pair \<^verbatim>\<open>(n, n)\<close>. The function is
  \<^verbatim>\<open>
    try:
        return series1[-2] < series2[-2] and series1[-1] > series2[-1]
    except IndexError:
        return False
  \<close>
\<close>

datatype series_arg = Seq "float64 list" | Num float64

fun as_seq :: "series_arg \<Rightarrow> float64 list" where
  "as_seq (Seq xs) = xs"
| "as_seq (Num n) = [n, n]"

definition crossover :: "series_arg \<Rightarrow> series_arg \<Rightarrow> bool" where
  "crossover series1 series2 =
     (case py_get (as_seq series1) (- 2) of Inl _ \<Rightarrow> False | Inr a2 \<Rightarrow>
     (case py_get (as_seq series2) (- 2) of Inl _ \<Rightarrow> False | Inr b2 \<Rightarrow>
      if \<not> flt a2 b2 then False else
     (case py_get (as_seq series1) (- 1) of Inl _ \<Rightarrow> False | Inr a1 \<Rightarrow>
     (case py_get (as_seq series2) (- 1) of Inl _ \<Rightarrow> False | Inr b1 \<Rightarrow>
      fgt a1 b1))))"

text \<open>
  The price data: the columns of the DataFrame that \<^verbatim>\<open>get_binance_4h_data\<close> returns,
  one entry per bar. In a DataFrame all columns have the same length (\<open>wf_data\<close>).
\<close>

record dataframe =
  Open :: "float64 list"
  High :: "float64 list"
  Low :: "float64 list"
  Close :: "float64 list"
  Volume :: "float64 list"

definition wf_data :: "'a dataframe_scheme \<Rightarrow> bool" where
  "wf_data d \<longleftrightarrow>
     length (Open d) = length (Close d) \<and> length (High d) = length (Close d) \<and>
     length (Low d) = length (Close d) \<and> length (Volume d) = length (Close d)"

text \<open>
  The strategy object as \<^verbatim>\<open>next\<close> sees it at one bar: the price data
  (\<^verbatim>\<open>self.data\<close>), the class attributes, the three indicator arrays (data and arrays
  each cut by the engine to the bars up to the current one, so that index \<^verbatim>\<open>-1\<close> is
  the current bar), and the truth value of \<^verbatim>\<open>self.position\<close> (true when a position
  is open).
\<close>

record strategy = dataframe +
  rsi_period :: int
  sma_period :: int
  atr_period :: int
  atr_multiplier_sl :: float64
  atr_multiplier_tp :: float64
  buy_threshold :: float64
  sell_threshold :: float64
  rsi :: "float64 list"
  sma :: "float64 list"
  atr :: "float64 list"
  position :: bool

text \<open>
  What \<^verbatim>\<open>next\<close> asks of the engine: \<^verbatim>\<open>self.buy(sl=stop_loss, tp=take_profit)\<close> is
  \<open>OpenLong stop_loss take_profit\<close>, \<^verbatim>\<open>self.position.close()\<close> is \<open>CloseLong\<close>.
  The function returns the requests of one call in the order they were made.
\<close>

datatype intent = OpenLong float64 float64 | CloseLong

text \<open>The guard \<^verbatim>\<open>np.isnan(self.sma[-1]) or np.isnan(self.atr[-1])\<close>.\<close>

definition indicators_not_ready :: "strategy \<Rightarrow> py_error + bool" where
  "indicators_not_ready self =
     (case py_get (sma self) (- 1) of Inl e \<Rightarrow> Inl e | Inr s \<Rightarrow>
      if isnan s then Inr True else
     (case py_get (atr self) (- 1) of Inl e \<Rightarrow> Inl e | Inr a \<Rightarrow> Inr (isnan a)))"

text \<open>
  The body of \<^verbatim>\<open>next\<close> after the guard: the current price, the two levels, then
  the \<^verbatim>\<open>if\<close>/\<^verbatim>\<open>elif\<close> of the buy and the sell condition. The \<^verbatim>\<open>and\<close> of Python
  reads \<^verbatim>\<open>self.sma[-1]\<close> only when the two tests before it hold; \<open>sell_branch\<close> is the
  \<^verbatim>\<open>elif\<close>, taken when the buy condition fails.
\<close>

definition evaluate_rules :: "strategy \<Rightarrow> py_error + intent list" where
  "evaluate_rules self =
     (case py_get (Close self) (- 1) of Inl e \<Rightarrow> Inl e | Inr current_price \<Rightarrow>
     (case py_get (atr self) (- 1) of Inl e \<Rightarrow> Inl e | Inr atr_last \<Rightarrow>
      (let stop_loss = fsub current_price (fmul (atr_multiplier_sl self) atr_last);
           take_profit = fadd current_price (fmul (atr_multiplier_tp self) atr_last);
           sell_branch =
             (if position self \<and> crossover (Num (sell_threshold self)) (Seq (rsi self))
              then Inr [CloseLong] else Inr [])
       in
       if \<not> position self \<and> crossover (Seq (rsi self)) (Num (buy_threshold self))
       then (case py_get (sma self) (- 1) of Inl e \<Rightarrow> Inl e | Inr sma_last \<Rightarrow>
               if fgt current_price sma_last then Inr [OpenLong stop_loss take_profit]
               else sell_branch)
       else sell_branch)))"

definition strategy_next :: "strategy \<Rightarrow> py_error + intent list" where
  "strategy_next self =
     (case indicators_not_ready self of Inl e \<Rightarrow> Inl e
      | Inr not_ready \<Rightarrow> if not_ready then Inr [] else evaluate_rules self)"

text \<open>
  The engine calls \<^verbatim>\<open>next\<close> at most once per bar \<open>i\<close> (it skips the first bars, while
  an indicator array still starts with NaN), after cutting the price data and every
  indicator array to the bars \<open>0..i\<close> (\<^verbatim>\<open>indicator[..., :i + 1]\<close>). \<open>at_bar self i\<close> is
  the strategy object of a call at bar \<open>i\<close>, \<open>self\<close> holding the full arrays.
\<close>

definition at_bar :: "strategy \<Rightarrow> nat \<Rightarrow> strategy" where
  "at_bar self i =
     self\<lparr>Open := take (Suc i) (Open self), High := take (Suc i) (High self),
          Low := take (Suc i) (Low self), Close := take (Suc i) (Close self),
          Volume := take (Suc i) (Volume self),
          rsi := take (Suc i) (rsi self), sma := take (Suc i) (sma self),
          atr := take (Suc i) (atr self)\<rparr>"

text \<open>
  A bar index of a run: the engine builds every indicator array with the length of the
  price data (see \<open>strategy_I\<close> below), so the four arrays are equally long.
\<close>

definition bar_of :: "strategy \<Rightarrow> nat \<Rightarrow> bool" where
  "bar_of self i \<longleftrightarrow>
     i < length (Close self) \<and> length (rsi self) = length (Close self) \<and>
     length (sma self) = length (Close self) \<and> length (atr self) = length (Close self)"

section \<open>The indicator engine\<close>

subsection \<open>pandas: rolling and exponentially weighted means\<close>

text \<open>
  The indicators are computed by pandas and pandas_ta, which the module imports. Their
  functions are embedded here from the libraries' own code, as far as \<^verbatim>\<open>custom_rsi\<close>,
  \<^verbatim>\<open>safe_sma\<close> and \<^verbatim>\<open>init\<close> reach it: pandas_ta's own implementations (the ones it
  runs when the optional TA-Lib is not installed), window functions without offset,
  fill or time weights.

  Window functions of pandas first replace every infinite value by NaN
  (\<^verbatim>\<open>_prep_values\<close>).
\<close>

definition prep_values :: "float64 list \<Rightarrow> float64 list" where
  "prep_values = map (\<lambda>x. if isfinite x then x else NaN)"

definition fsum :: "float64 list \<Rightarrow> float64" where
  "fsum xs = foldl fadd (Fin 0) xs"

text \<open>
  \<^verbatim>\<open>series.rolling(w, min_periods=w).mean()\<close>: entry \<open>i\<close> is the mean of the \<open>w\<close> values
  ending at \<open>i\<close> when there are \<open>w\<close> of them and all are numbers, and NaN otherwise
  (the mean of no value, for \<open>w = 0\<close>, is NaN as well).
\<close>

definition window :: "nat \<Rightarrow> float64 list \<Rightarrow> nat \<Rightarrow> float64 list" where
  "window w xs i = drop (Suc i - w) (take (Suc i) xs)"

definition rolling_mean :: "nat \<Rightarrow> float64 list \<Rightarrow> float64 list" where
  "rolling_mean w xs =
     map (\<lambda>i. let win = window w (prep_values xs) i in
               if length win = w \<and> (\<forall>x \<in> set win. \<not> isnan x)
               then fdiv (fsum win) (Fin (real w)) else NaN)
         [0..<length xs]"

text \<open>
  \<^verbatim>\<open>series.ewm(alpha=alpha, min_periods=minp).mean()\<close> with the defaults
  \<^verbatim>\<open>adjust=True\<close>, \<^verbatim>\<open>ignore_na=False\<close>. The loop of pandas keeps the running mean
  \<^verbatim>\<open>weighted\<close>, the weight \<^verbatim>\<open>old_wt\<close> of what it has seen and the number \<^verbatim>\<open>nobs\<close> of
  values that were not NaN:
  \<^verbatim>\<open>
    cur = vals[i]; is_observation = cur == cur; nobs += is_observation
    if weighted == weighted:
        if is_observation or not ignore_na:
            old_wt *= old_wt_factor                    # 1 - alpha
            if is_observation:
                if weighted != cur:
                    weighted = old_wt * weighted + new_wt * cur   # new_wt = 1
                    weighted /= (old_wt + new_wt)
                old_wt += new_wt
    elif is_observation:
        weighted = cur
    output[i] = weighted if nobs >= minp else NaN
  \<close>
  It starts from \<^verbatim>\<open>weighted = vals[0]\<close>, \<^verbatim>\<open>old_wt = 1\<close>, \<^verbatim>\<open>nobs\<close> 1 or 0 as
  \<^verbatim>\<open>vals[0]\<close> is a number or not. The weights are finite and taken as reals.
\<close>

record ewm_state =
  weighted :: float64
  old_wt :: real
  nobs :: nat

definition ewm_step :: "real \<Rightarrow> ewm_state \<Rightarrow> float64 \<Rightarrow> ewm_state" where
  "ewm_step alpha st cur =
     (let is_observation = \<not> isnan cur;
          st = st\<lparr>nobs := nobs st + (if is_observation then 1 else 0)\<rparr>
      in if \<not> isnan (weighted st) then
           (let st = st\<lparr>old_wt := old_wt st * (1 - alpha)\<rparr>
            in if is_observation then
                 (let st = (if weighted st \<noteq> cur
                            then st\<lparr>weighted :=
                                   fdiv (fadd (fmul (Fin (old_wt st)) (weighted st))
                                              (fmul (Fin 1) cur))
                                        (Fin (old_wt st + 1))\<rparr>
                            else st)
                  in st\<lparr>old_wt := old_wt st + 1\<rparr>)
               else st)
         else if is_observation then st\<lparr>weighted := cur\<rparr>
         else st)"

definition ewm_output :: "nat \<Rightarrow> ewm_state \<Rightarrow> float64" where
  "ewm_output minp st = (if minp \<le> nobs st then weighted st else NaN)"

fun ewm_loop :: "real \<Rightarrow> nat \<Rightarrow> ewm_state \<Rightarrow> float64 list \<Rightarrow> float64 list" where
  "ewm_loop alpha minp st [] = []"
| "ewm_loop alpha minp st (cur # rest) =
     (let st = ewm_step alpha st cur in ewm_output minp st # ewm_loop alpha minp st rest)"

definition ewm_mean :: "real \<Rightarrow> nat \<Rightarrow> float64 list \<Rightarrow> float64 list" where
  "ewm_mean alpha minp vals =
     (case prep_values vals of [] \<Rightarrow> []
      | v0 # rest \<Rightarrow>
          (let st = \<lparr>weighted = v0, old_wt = 1, nobs = (if isnan v0 then 0 else 1)\<rparr>
           in ewm_output minp st # ewm_loop alpha minp st rest))"

text \<open>
  Two predicates for reasoning about the loop of the exponentially weighted mean, for a
  sign \<open>sg\<close> (1 or -1): a value is NaN or a number of that sign, and a loop state has a
  weight that is not negative and a running mean that is NaN before the first number was
  seen and a number of that sign afterwards.
\<close>

definition signed_value :: "real \<Rightarrow> float64 \<Rightarrow> bool" where
  "signed_value sg x \<longleftrightarrow> x = NaN \<or> (\<exists>c. x = Fin c \<and> 0 \<le> sg * c)"

definition signed_state :: "real \<Rightarrow> ewm_state \<Rightarrow> bool" where
  "signed_state sg st \<longleftrightarrow>
     0 \<le> old_wt st \<and>
     (if nobs st = 0 then weighted st = NaN
      else (\<exists>w. weighted st = Fin w \<and> 0 \<le> sg * w))"

subsection \<open>pandas_ta: \<^verbatim>\<open>rma\<close>, \<^verbatim>\<open>rsi\<close>, \<^verbatim>\<open>sma\<close>, \<^verbatim>\<open>true_range\<close>, \<^verbatim>\<open>atr\<close>\<close>

text \<open>
  \<^verbatim>\<open>verify_series(series, min_length)\<close> returns \<^verbatim>\<open>None\<close> when the series is shorter
  than \<^verbatim>\<open>min_length\<close>; every indicator of pandas_ta then returns \<^verbatim>\<open>None\<close> itself.
  A length argument that is not positive is replaced by the indicator's default
  (\<^verbatim>\<open>length = int(length) if length and length > 0 else 14\<close>).
\<close>

definition verify_series :: "float64 list \<Rightarrow> nat \<Rightarrow> float64 list option" where
  "verify_series series min_length =
     (if length series < min_length then None else Some series)"

definition effective_length :: "int \<Rightarrow> nat \<Rightarrow> nat" where
  "effective_length len dflt = (if 0 < len then nat len else dflt)"

text \<open>
  Wilder's moving average:
  \<^verbatim>\<open>rma = close.ewm(alpha=1.0 / length, min_periods=length).mean()\<close>.
\<close>

definition rma :: "float64 list \<Rightarrow> int \<Rightarrow> float64 list option" where
  "rma close len =
     (let n = effective_length len 10 in
      case verify_series close n of None \<Rightarrow> None
      | Some close \<Rightarrow> Some (ewm_mean (1 / real n) n close))"

text \<open>\<^verbatim>\<open>close.diff(1)\<close>: NaN first, then each value minus the one before.\<close>

definition series_diff :: "float64 list \<Rightarrow> float64 list" where
  "series_diff xs = (case xs of [] \<Rightarrow> [] | _ # rest \<Rightarrow> NaN # map2 fsub rest xs)"

text \<open>
  The RSI of pandas_ta:
  \<^verbatim>\<open>
    negative = close.diff(drift)                 # drift = 1
    positive = negative.copy()
    positive[positive < 0] = 0
    negative[negative > 0] = 0
    positive_avg = rma(positive, length=length)
    negative_avg = rma(negative, length=length)
    rsi = scalar * positive_avg / (positive_avg + negative_avg.abs())   # scalar = 100
  \<close>
\<close>

definition gains :: "float64 list \<Rightarrow> float64 list" where
  "gains close = map (\<lambda>d. if flt d (Fin 0) then Fin 0 else d) (series_diff close)"

definition losses :: "float64 list \<Rightarrow> float64 list" where
  "losses close = map (\<lambda>d. if fgt d (Fin 0) then Fin 0 else d) (series_diff close)"

definition rsi_value :: "float64 \<Rightarrow> float64 \<Rightarrow> float64" where
  "rsi_value positive_avg negative_avg =
     fdiv (fmul (Fin 100) positive_avg) (fadd positive_avg (fabs negative_avg))"

definition ta_rsi :: "float64 list \<Rightarrow> int \<Rightarrow> float64 list option" where
  "ta_rsi close len =
     (let n = effective_length len 14 in
      case verify_series close n of None \<Rightarrow> None
      | Some close \<Rightarrow>
         (case rma (gains close) (int n) of None \<Rightarrow> None
          | Some positive_avg \<Rightarrow>
             (case rma (losses close) (int n) of None \<Rightarrow> None
              | Some negative_avg \<Rightarrow> Some (map2 rsi_value positive_avg negative_avg))))"

text \<open>
  The SMA of pandas_ta:
  \<^verbatim>\<open>sma = close.rolling(length, min_periods=min_periods).mean()\<close>, where
  \<^verbatim>\<open>min_periods\<close> is the length.
\<close>

definition ta_sma :: "float64 list \<Rightarrow> int \<Rightarrow> float64 list option" where
  "ta_sma close len =
     (let n = effective_length len 10 in
      case verify_series close n of None \<Rightarrow> None
      | Some close \<Rightarrow> Some (rolling_mean n close))"

text \<open>
  The true range of pandas_ta. \<^verbatim>\<open>non_zero_range(high, low)\<close> is the difference
  \<^verbatim>\<open>high - low\<close>, with \<^verbatim>\<open>sys.float_info.epsilon\<close> added to every entry when some
  entry is zero:
  \<^verbatim>\<open>
    diff = high - low
    if diff.eq(0).any().any():
        diff += sflt.epsilon
  \<close>
  and the true range is
  \<^verbatim>\<open>
    high_low_range = non_zero_range(high, low)
    prev_close = close.shift(drift)              # drift = 1
    ranges = [high_low_range, high - prev_close, prev_close - low]
    true_range = concat(ranges, axis=1)
    true_range = true_range.abs().max(axis=1)
    true_range.iloc[:drift] = npNaN
  \<close>
  The row maximum of pandas skips NaN.
\<close>

definition epsilon :: real where
  "epsilon = 1 / 2 ^ 52"

definition non_zero_range :: "float64 list \<Rightarrow> float64 list \<Rightarrow> float64 list" where
  "non_zero_range high low =
     (let diff = map2 fsub high low
      in if \<exists>d \<in> set diff. d = Fin 0 then map (\<lambda>d. fadd d (Fin epsilon)) diff else diff)"

fun fmax :: "float64 \<Rightarrow> float64 \<Rightarrow> float64" where
  "fmax NaN y = y"
| "fmax x NaN = x"
| "fmax x y = (if flt x y then y else x)"

definition shift :: "float64 list \<Rightarrow> float64 list" where
  "shift xs = (case xs of [] \<Rightarrow> [] | _ # _ \<Rightarrow> NaN # butlast xs)"

definition nan_first :: "float64 list \<Rightarrow> float64 list" where
  "nan_first xs = (case xs of [] \<Rightarrow> [] | _ # rest \<Rightarrow> NaN # rest)"

definition true_range :: "float64 list \<Rightarrow> float64 list \<Rightarrow> float64 list \<Rightarrow> float64 list" where
  "true_range high low close =
     (let high_low_range = non_zero_range high low;
          prev_close = shift close;
          ranges = zip high_low_range (zip (map2 fsub high prev_close) (map2 fsub prev_close low))
      in nan_first (map (\<lambda>(r1, r2, r3). fmax (fmax (fabs r1) (fabs r2)) (fabs r3)) ranges))"

text \<open>
  The ATR of pandas_ta, with its default moving average \<^verbatim>\<open>rma\<close>:
  \<^verbatim>\<open>
    tr = true_range(high=high, low=low, close=close, drift=drift)
    atr = ma(mamode, tr, length=length)
  \<close>
\<close>

definition ta_atr ::
  "float64 list \<Rightarrow> float64 list \<Rightarrow> float64 list \<Rightarrow> int \<Rightarrow> float64 list option" where
  "ta_atr high low close len =
     (let n = effective_length len 14 in
      case verify_series high n of None \<Rightarrow> None | Some high \<Rightarrow>
     (case verify_series low n of None \<Rightarrow> None | Some low \<Rightarrow>
     (case verify_series close n of None \<Rightarrow> None | Some close \<Rightarrow>
        rma (true_range high low close) (int n))))"

subsection \<open>The module's indicator functions\<close>

text \<open>
  \<^verbatim>\<open>custom_rsi(data, length)\<close>. \<^verbatim>\<open>rolling(length)\<close> raises \<^verbatim>\<open>ValueError\<close> for a negative
  window; the arithmetic on the columns is elementwise and follows IEEE 754 (a division
  by zero gives an infinity or NaN, never an exception). The result is what
  \<^verbatim>\<open>ta.rsi\<close> returns, which may be \<^verbatim>\<open>None\<close>.
\<close>

definition hlc3 :: "'a dataframe_scheme \<Rightarrow> float64 list" where
  "hlc3 data =
     map (\<lambda>(h, l, c). fdiv (fadd (fadd h l) c) (Fin 3))
         (zip (High data) (zip (Low data) (Close data)))"

definition volume_average :: "'a dataframe_scheme \<Rightarrow> nat \<Rightarrow> float64 list" where
  "volume_average data len = rolling_mean len (Volume data)"

definition normalized_volume :: "'a dataframe_scheme \<Rightarrow> nat \<Rightarrow> float64 list" where
  "normalized_volume data len = map2 fdiv (Volume data) (volume_average data len)"

definition adjusted_price :: "'a dataframe_scheme \<Rightarrow> nat \<Rightarrow> float64 list" where
  "adjusted_price data len = map2 fmul (hlc3 data) (normalized_volume data len)"

definition custom_rsi :: "'a dataframe_scheme \<Rightarrow> int \<Rightarrow> py_error + float64 list option" where
  "custom_rsi data len =
     (if len < 0 then Inl ValueError
      else Inr (ta_rsi (adjusted_price data (nat len)) len))"

text \<open>
  \<^verbatim>\<open>safe_sma(close_prices, period)\<close>. Where \<^verbatim>\<open>ta.sma\<close> returns \<^verbatim>\<open>None\<close>, reading
  \<^verbatim>\<open>.values\<close> raises \<^verbatim>\<open>AttributeError\<close>.
\<close>

definition safe_sma :: "float64 list \<Rightarrow> int \<Rightarrow> py_error + float64 list" where
  "safe_sma close_prices period =
     (if int (length close_prices) < period
      then Inr (replicate (length close_prices) NaN)
      else case ta_sma close_prices period of
             None \<Rightarrow> Inl AttributeError
           | Some s \<Rightarrow> Inr s)"

text \<open>
  \<^verbatim>\<open>Strategy.I\<close> of the engine wraps an indicator: an exception of the indicator
  function becomes \<^verbatim>\<open>RuntimeError\<close>, and a result that is \<^verbatim>\<open>None\<close> or not as long as
  the price data raises \<^verbatim>\<open>ValueError\<close>. \<^verbatim>\<open>init\<close> declares the three indicators in
  the order RSI, SMA, ATR.
\<close>

definition strategy_I :: "nat \<Rightarrow> py_error + float64 list option \<Rightarrow> py_error + float64 list" where
  "strategy_I n result =
     (case result of Inl _ \<Rightarrow> Inl RuntimeError
      | Inr None \<Rightarrow> Inl ValueError
      | Inr (Some v) \<Rightarrow> if length v = n then Inr v else Inl ValueError)"

definition strategy_init :: "strategy \<Rightarrow> py_error + strategy" where
  "strategy_init self =
     (let n = length (Close self) in
      case strategy_I n (custom_rsi self (rsi_period self)) of Inl e \<Rightarrow> Inl e
      | Inr rsi_values \<Rightarrow>
     (case strategy_I n (map_sum id Some (safe_sma (Close self) (sma_period self))) of
        Inl e \<Rightarrow> Inl e
      | Inr sma_values \<Rightarrow>
     (case strategy_I n (Inr (ta_atr (High self) (Low self) (Close self) (atr_period self))) of
        Inl e \<Rightarrow> Inl e
      | Inr atr_values \<Rightarrow>
          Inr (self\<lparr>rsi := rsi_values, sma := sma_values, atr := atr_values\<rparr>))))"




text \<open>
  Two runs compared: price data that agree on the bars \<open>0..i\<close>, the same class
  attributes, and whether some bar of the data has \<^verbatim>\<open>High - Low\<close> equal to zero (the
  test of \<^verbatim>\<open>non_zero_range\<close>).
\<close>

definition agree_upto :: "'a dataframe_scheme \<Rightarrow> 'b dataframe_scheme \<Rightarrow> nat \<Rightarrow> bool" where
  "agree_upto d1 d2 i \<longleftrightarrow>
     take (Suc i) (Open d1) = take (Suc i) (Open d2) \<and>
     take (Suc i) (High d1) = take (Suc i) (High d2) \<and>
     take (Suc i) (Low d1) = take (Suc i) (Low d2) \<and>
     take (Suc i) (Close d1) = take (Suc i) (Close d2) \<and>
     take (Suc i) (Volume d1) = take (Suc i) (Volume d2)"

definition same_parameters :: "strategy \<Rightarrow> strategy \<Rightarrow> bool" where
  "same_parameters s1 s2 \<longleftrightarrow>
     rsi_period s1 = rsi_period s2 \<and> sma_period s1 = sma_period s2 \<and>
     atr_period s1 = atr_period s2 \<and>
     atr_multiplier_sl s1 = atr_multiplier_sl s2 \<and>
     atr_multiplier_tp s1 = atr_multiplier_tp s2 \<and>
     buy_threshold s1 = buy_threshold s2 \<and> sell_threshold s1 = sell_threshold s2"

definition has_zero_range :: "'a dataframe_scheme \<Rightarrow> bool" where
  "has_zero_range d \<longleftrightarrow> (\<exists>x \<in> set (map2 fsub (High d) (Low d)). x = Fin 0)"

section \<open>Concrete bars used as examples\<close>

text \<open>
  Two-bar runs with the class defaults (\<^verbatim>\<open>buy_threshold = 55\<close>, \<^verbatim>\<open>sell_threshold = 45\<close>,
  multipliers 1.5 and 5.0), close 100 above an SMA of 90, ATR 2. They differ in the RSI
  values, the position and the readiness of the indicators.
\<close>

definition example_bars :: "float64 list \<Rightarrow> bool \<Rightarrow> strategy" where
  "example_bars rsi_values pos =
     \<lparr>Open = [Fin 100, Fin 100], High = [Fin 101, Fin 101], Low = [Fin 99, Fin 99],
      Close = [Fin 100, Fin 100], Volume = [Fin 10, Fin 10],
      rsi_period = 21, sma_period = 50, atr_period = 14,
      atr_multiplier_sl = Fin (3 / 2), atr_multiplier_tp = Fin 5,
      buy_threshold = Fin 55, sell_threshold = Fin 45,
      rsi = rsi_values, sma = [Fin 90, Fin 90], atr = [Fin 2, Fin 2],
      position = pos\<rparr>"

definition flat_cross_up :: strategy where
  "flat_cross_up = example_bars [Fin 50, Fin 60] False"

definition flat_tie_up :: strategy where
  "flat_tie_up = example_bars [Fin 55, Fin 60] False"

definition long_cross_down :: strategy where
  "long_cross_down = example_bars [Fin 50, Fin 40] True"

definition long_tie_down :: strategy where
  "long_tie_down = example_bars [Fin 45, Fin 40] True"

definition long_sma_undefined :: strategy where
  "long_sma_undefined = (example_bars [Fin 50, Fin 40] True)\<lparr>sma := [NaN, NaN]\<rparr>"

definition flat_rsi_undefined :: strategy where
  "flat_rsi_undefined = example_bars [NaN, NaN] False"

text \<open>
  Six bars with small windows (RSI 2, SMA 3, ATR 2), before \<^verbatim>\<open>init\<close> has run: the
  indicator arrays are still empty.
\<close>

definition six_bars :: strategy where
  "six_bars =
     \<lparr>Open = map Fin [1, 2, 3, 4, 5, 6], High = map Fin [2, 3, 4, 5, 6, 7],
      Low = map Fin [1, 2, 3, 3, 5, 6], Close = map Fin [1, 3, 4, 5, 5, 7],
      Volume = map Fin [1, 2, 3, 2, 1, 1],
      rsi_period = 2, sma_period = 3, atr_period = 2,
      atr_multiplier_sl = Fin (3 / 2), atr_multiplier_tp = Fin 5,
      buy_threshold = Fin 55, sell_threshold = Fin 45,
      rsi = [], sma = [], atr = [], position = False\<rparr>"




text \<open>
  Two bars, and the same two bars followed by a third whose high equals its low, with
  all three periods 1, before \<^verbatim>\<open>init\<close> has run. The second bar has the range
  \<open>2.5 - 2 = 0.5\<close> around the previous close 2.25, so its true range is its high-low
  range.
\<close>

definition two_bars :: strategy where
  "two_bars =
     \<lparr>Open = map Fin [2, 9 / 4], High = map Fin [3, 5 / 2], Low = map Fin [1, 2],
      Close = map Fin [9 / 4, 9 / 4], Volume = map Fin [1, 1],
      rsi_period = 1, sma_period = 1, atr_period = 1,
      atr_multiplier_sl = Fin (3 / 2), atr_multiplier_tp = Fin 5,
      buy_threshold = Fin 55, sell_threshold = Fin 45,
      rsi = [], sma = [], atr = [], position = False\<rparr>"

definition three_bars :: strategy where
  "three_bars =
     \<lparr>Open = map Fin [2, 9 / 4, 3], High = map Fin [3, 5 / 2, 3], Low = map Fin [1, 2, 3],
      Close = map Fin [9 / 4, 9 / 4, 3], Volume = map Fin [1, 1, 1],
      rsi_period = 1, sma_period = 1, atr_period = 1,
      atr_multiplier_sl = Fin (3 / 2), atr_multiplier_tp = Fin 5,
      buy_threshold = Fin 55, sell_threshold = Fin 45,
      rsi = [], sma = [], atr = [], position = False\<rparr>"

text \<open>The same three bars with a last bar whose high (4) is above its low (3).\<close>

definition three_bars_wide :: strategy where
  "three_bars_wide = three_bars\<lparr>High := map Fin [3, 5 / 2, 4]\<rparr>"

section \<open>Properties of the signal evaluator\<close>

lemma py_get_from_end:
  "0 < k \<Longrightarrow> k \<le> length ys \<Longrightarrow> py_get ys (- int k) = Inr (ys ! (length ys - k))"
  by (simp add: py_get_def Let_def nat_diff_distrib' del: of_nat_diff flip: of_nat_diff)

lemma py_get_too_short: "length ys < k \<Longrightarrow> py_get ys (- int k) = Inl IndexError"
  by (simp add: py_get_def Let_def)

lemma py_get_last:
  assumes "i < length xs"
  shows "py_get (take (Suc i) xs) (- 1) = Inr (xs ! i)"
proof -
  define ys where "ys = take (Suc i) xs"
  have len: "length ys = Suc i" and nth: "ys ! i = xs ! i"
    using assms by (simp_all add: ys_def)
  have "py_get ys (- int 1) = Inr (ys ! (length ys - 1))"
    by (rule py_get_from_end) (simp_all add: len)
  then show ?thesis by (simp add: len nth flip: ys_def)
qed

lemma py_get_prev:
  assumes "i < length xs"
  shows "py_get (take (Suc i) xs) (- 2) =
           (if 1 \<le> i then Inr (xs ! (i - 1)) else Inl IndexError)"
proof -
  define ys where "ys = take (Suc i) xs"
  have len: "length ys = Suc i" and nth: "ys ! (i - 1) = xs ! (i - 1)"
    using assms by (simp_all add: ys_def)
  show ?thesis
  proof (cases "1 \<le> i")
    case True
    have "py_get ys (- int 2) = Inr (ys ! (length ys - 2))"
      by (rule py_get_from_end) (use True in \<open>simp_all add: len\<close>)
    moreover have "length ys - 2 = i - 1" by (simp add: len)
    ultimately show ?thesis using True nth by (simp flip: ys_def)
  next
    case False
    have "py_get ys (- int 2) = Inl IndexError"
      by (rule py_get_too_short) (use False in \<open>simp add: len\<close>)
    then show ?thesis using False by (simp flip: ys_def)
  qed
qed

lemma py_get_pair: "py_get [n, n] (- 2) = Inr n" "py_get [n, n] (- 1) = Inr n"
  by (simp_all add: py_get_def)

lemma crossover_above:
  "i < length xs \<Longrightarrow>
   crossover (Seq (take (Suc i) xs)) (Num t) \<longleftrightarrow>
     1 \<le> i \<and> flt (xs ! (i - 1)) t \<and> fgt (xs ! i) t"
  by (simp add: crossover_def py_get_last py_get_prev py_get_pair)

lemma crossover_below:
  "i < length xs \<Longrightarrow>
   crossover (Num t) (Seq (take (Suc i) xs)) \<longleftrightarrow>
     1 \<le> i \<and> flt t (xs ! (i - 1)) \<and> fgt t (xs ! i)"
  by (simp add: crossover_def py_get_last py_get_prev py_get_pair)

lemma not_ready_at_bar:
  "bar_of s i \<Longrightarrow>
   indicators_not_ready (at_bar s i) = Inr (isnan (sma s ! i) \<or> isnan (atr s ! i))"
  by (simp add: indicators_not_ready_def at_bar_def bar_of_def py_get_last)

lemma evaluate_rules_at_bar:
  "bar_of s i \<Longrightarrow>
   evaluate_rules (at_bar s i) =
     (if \<not> position s \<and> 1 \<le> i \<and> flt (rsi s ! (i - 1)) (buy_threshold s)
         \<and> fgt (rsi s ! i) (buy_threshold s) \<and> fgt (Close s ! i) (sma s ! i)
      then Inr [OpenLong (fsub (Close s ! i) (fmul (atr_multiplier_sl s) (atr s ! i)))
                         (fadd (Close s ! i) (fmul (atr_multiplier_tp s) (atr s ! i)))]
      else if position s \<and> 1 \<le> i \<and> flt (sell_threshold s) (rsi s ! (i - 1))
              \<and> fgt (sell_threshold s) (rsi s ! i)
      then Inr [CloseLong]
      else Inr [])"
  by (simp add: evaluate_rules_def at_bar_def bar_of_def py_get_last crossover_above crossover_below Let_def)

lemma strategy_next_at_bar:
  "bar_of s i \<Longrightarrow>
   strategy_next (at_bar s i) =
     (if isnan (sma s ! i) \<or> isnan (atr s ! i) then Inr []
      else if \<not> position s \<and> 1 \<le> i \<and> flt (rsi s ! (i - 1)) (buy_threshold s)
         \<and> fgt (rsi s ! i) (buy_threshold s) \<and> fgt (Close s ! i) (sma s ! i)
      then Inr [OpenLong (fsub (Close s ! i) (fmul (atr_multiplier_sl s) (atr s ! i)))
                         (fadd (Close s ! i) (fmul (atr_multiplier_tp s) (atr s ! i)))]
      else if position s \<and> 1 \<le> i \<and> flt (sell_threshold s) (rsi s ! (i - 1))
              \<and> fgt (sell_threshold s) (rsi s ! i)
      then Inr [CloseLong]
      else Inr [])"
  by (simp add: strategy_next_def not_ready_at_bar evaluate_rules_at_bar)


lemma example_bars_bar: "bar_of (example_bars [a, b] p) 1"
  by (simp add: bar_of_def example_bars_def)

text \<open>
  Claim C1, as amended. At a bar \<open>i\<close> of a run, \<^verbatim>\<open>next\<close> issues exactly one request,
  the buy with stop-loss \<open>close[i] - atr_multiplier_sl * atr[i]\<close> and take-profit
  \<open>close[i] + atr_multiplier_tp * atr[i]\<close>, when there is no position, SMA[i] and ATR[i]
  are not NaN, RSI[i-1] < buy_threshold < RSI[i] (both strict, so \<open>i \<ge> 1\<close> and both values
  are numbers) and close[i] > SMA[i]. When any of these fails the call succeeds and
  issues no buy.
\<close>

theorem open_long_rule:
  assumes "bar_of s i"
  shows "(if \<not> position s \<and> \<not> isnan (sma s ! i) \<and> \<not> isnan (atr s ! i) \<and> 1 \<le> i
             \<and> flt (rsi s ! (i - 1)) (buy_threshold s) \<and> fgt (rsi s ! i) (buy_threshold s)
             \<and> fgt (Close s ! i) (sma s ! i)
          then strategy_next (at_bar s i) =
                 Inr [OpenLong (fsub (Close s ! i) (fmul (atr_multiplier_sl s) (atr s ! i)))
                               (fadd (Close s ! i) (fmul (atr_multiplier_tp s) (atr s ! i)))]
          else (\<exists>out. strategy_next (at_bar s i) = Inr out \<and>
                  (\<forall>sl tp. OpenLong sl tp \<notin> set out)))"
  using assms by (simp add: strategy_next_at_bar)

theorem open_long_rule_witness:
  "bar_of flat_cross_up 1 \<and>
   strategy_next (at_bar flat_cross_up 1) = Inr [OpenLong (Fin 97) (Fin 110)]"
proof -
  have b: "bar_of flat_cross_up 1"
    unfolding flat_cross_up_def by (rule example_bars_bar)
  show ?thesis
    using b open_long_rule [OF b]
    by (simp add: flat_cross_up_def example_bars_def fgt_def fsub_def)
qed

text \<open>
  Claim C1 as stated fails at a tie: with RSI[0] = 55 = buy_threshold and RSI[1] = 60 the
  stated precondition (RSI[i-1] \<le> buy_threshold and RSI[i] > buy_threshold, no position,
  indicators ready, close above SMA) holds at bar 1, and \<^verbatim>\<open>next\<close> issues nothing.
\<close>

theorem open_long_tie_counterexample:
  "bar_of flat_tie_up 1 \<and> \<not> position flat_tie_up \<and>
   \<not> isnan (sma flat_tie_up ! 1) \<and> \<not> isnan (atr flat_tie_up ! 1) \<and>
   fle (rsi flat_tie_up ! 0) (buy_threshold flat_tie_up) \<and>
   fgt (rsi flat_tie_up ! 1) (buy_threshold flat_tie_up) \<and>
   fgt (Close flat_tie_up ! 1) (sma flat_tie_up ! 1) \<and>
   strategy_next (at_bar flat_tie_up 1) = Inr []"
proof -
  have b: "bar_of flat_tie_up 1"
    unfolding flat_tie_up_def by (rule example_bars_bar)
  show ?thesis
    using b by (simp add: strategy_next_at_bar) (simp add: flat_tie_up_def example_bars_def fgt_def)
qed

text \<open>
  Claim C2, as amended. At a bar \<open>i\<close> of a run, \<^verbatim>\<open>next\<close> issues exactly one request,
  the full close, when a position is open, SMA[i] and ATR[i] are not NaN and
  RSI[i-1] > sell_threshold > RSI[i] (both strict). When a position is open and this
  fails, the call succeeds and issues no close.
\<close>

theorem close_long_rule:
  assumes "bar_of s i" and "position s"
  shows "(if \<not> isnan (sma s ! i) \<and> \<not> isnan (atr s ! i) \<and> 1 \<le> i
             \<and> flt (sell_threshold s) (rsi s ! (i - 1)) \<and> fgt (sell_threshold s) (rsi s ! i)
          then strategy_next (at_bar s i) = Inr [CloseLong]
          else (\<exists>out. strategy_next (at_bar s i) = Inr out \<and> CloseLong \<notin> set out))"
  using assms by (simp add: strategy_next_at_bar)

theorem close_long_rule_witness:
  "bar_of long_cross_down 1 \<and> position long_cross_down \<and>
   strategy_next (at_bar long_cross_down 1) = Inr [CloseLong]"
proof -
  have b: "bar_of long_cross_down 1"
    unfolding long_cross_down_def by (rule example_bars_bar)
  have p: "position long_cross_down"
    by (simp add: long_cross_down_def example_bars_def)
  show ?thesis
    using b p close_long_rule [OF b p]
    by (simp add: long_cross_down_def example_bars_def fgt_def)
qed

text \<open>
  Claim C2 as stated fails twice. At a tie (RSI[0] = 45 = sell_threshold, RSI[1] = 40,
  position open, indicators ready) the stated crossunder RSI[i-1] \<ge> sell_threshold and
  RSI[i] < sell_threshold holds and nothing is issued. And with a strict crossunder
  (RSI 50 then 40) and a position open but SMA[1] undefined, the guard returns before
  the sell condition is read and nothing is issued.
\<close>

theorem close_long_counterexample:
  "bar_of long_tie_down 1 \<and> position long_tie_down \<and>
   fge (rsi long_tie_down ! 0) (sell_threshold long_tie_down) \<and>
   flt (rsi long_tie_down ! 1) (sell_threshold long_tie_down) \<and>
   strategy_next (at_bar long_tie_down 1) = Inr [] \<and>
   bar_of long_sma_undefined 1 \<and> position long_sma_undefined \<and>
   fge (rsi long_sma_undefined ! 0) (sell_threshold long_sma_undefined) \<and>
   flt (rsi long_sma_undefined ! 1) (sell_threshold long_sma_undefined) \<and>
   strategy_next (at_bar long_sma_undefined 1) = Inr []"
proof -
  have b: "bar_of long_tie_down 1"
    unfolding long_tie_down_def by (rule example_bars_bar)
  have b': "bar_of long_sma_undefined 1"
    by (simp add: long_sma_undefined_def bar_of_def example_bars_def)
  have "strategy_next (at_bar long_tie_down 1) = Inr []"
    using b by (simp add: strategy_next_at_bar) (simp add: long_tie_down_def example_bars_def fgt_def)
  moreover have "strategy_next (at_bar long_sma_undefined 1) = Inr []"
    using b' by (simp add: strategy_next_at_bar) (simp add: long_sma_undefined_def example_bars_def)
  ultimately show ?thesis
    using b b' by (simp add: long_tie_down_def long_sma_undefined_def example_bars_def fge_def)
qed

text \<open>
  Claim C3. At a bar \<open>i\<close> of a run the guard of \<^verbatim>\<open>next\<close> finds the indicators not ready
  exactly when SMA[i] is NaN or ATR[i] is NaN; the RSI array plays no part in it (any RSI
  array gives the same answer); and when the indicators are not ready the call issues
  nothing.
\<close>

theorem readiness_gate:
  assumes "bar_of s i"
  shows "indicators_not_ready (at_bar s i) = Inr (isnan (sma s ! i) \<or> isnan (atr s ! i)) \<and>
         indicators_not_ready (at_bar (s\<lparr>rsi := r\<rparr>) i) = indicators_not_ready (at_bar s i) \<and>
         (isnan (sma s ! i) \<or> isnan (atr s ! i) \<longrightarrow> strategy_next (at_bar s i) = Inr [])"
proof -
  have "sma (at_bar (s\<lparr>rsi := r\<rparr>) i) = sma (at_bar s i)"
    and "atr (at_bar (s\<lparr>rsi := r\<rparr>) i) = atr (at_bar s i)"
    by (simp_all add: at_bar_def)
  then have "indicators_not_ready (at_bar (s\<lparr>rsi := r\<rparr>) i) = indicators_not_ready (at_bar s i)"
    unfolding indicators_not_ready_def by (simp split: sum.splits)
  then show ?thesis
    using assms by (simp add: not_ready_at_bar strategy_next_at_bar)
qed

theorem readiness_gate_witness:
  "bar_of flat_rsi_undefined 1 \<and>
   isnan (rsi flat_rsi_undefined ! 1) \<and>
   indicators_not_ready (at_bar flat_rsi_undefined 1) = Inr False \<and>
   bar_of long_sma_undefined 1 \<and>
   indicators_not_ready (at_bar long_sma_undefined 1) = Inr True \<and>
   strategy_next (at_bar long_sma_undefined 1) = Inr []"
proof -
  have b: "bar_of flat_rsi_undefined 1"
    unfolding flat_rsi_undefined_def by (rule example_bars_bar)
  have b': "bar_of long_sma_undefined 1"
    by (simp add: long_sma_undefined_def bar_of_def example_bars_def)
  show ?thesis
    using b b' readiness_gate [OF b] readiness_gate [OF b']
    by (simp add: flat_rsi_undefined_def long_sma_undefined_def example_bars_def)
qed



lemma strategy_next_cases:
  assumes "strategy_next self = Inr out"
  shows "out = [] \<or>
         (\<not> position self \<and> (\<exists>sl tp. out = [OpenLong sl tp])) \<or>
         (position self \<and> out = [CloseLong])"
  using assms
  by (auto simp: strategy_next_def evaluate_rules_def Let_def split: sum.splits if_splits)

text \<open>
  Claim C4. A call of \<^verbatim>\<open>next\<close> that returns issues at most one request; it issues no
  buy while a position is open and no close while there is none; and the buy condition
  is tested first: when the indicators are ready and the buy condition holds, the one
  request is the buy.
\<close>

theorem one_intent_per_bar:
  assumes "strategy_next self = Inr out"
  shows "length out \<le> 1 \<and>
         (position self \<longrightarrow> (\<forall>sl tp. OpenLong sl tp \<notin> set out)) \<and>
         (\<not> position self \<longrightarrow> CloseLong \<notin> set out) \<and>
         (indicators_not_ready self = Inr False \<and> \<not> position self \<and>
          crossover (Seq (rsi self)) (Num (buy_threshold self)) \<and>
          (\<exists>p m. py_get (Close self) (- 1) = Inr p \<and> py_get (sma self) (- 1) = Inr m \<and> fgt p m)
          \<longrightarrow> (\<exists>sl tp. out = [OpenLong sl tp]))"
proof -
  have "indicators_not_ready self = Inr False \<and> \<not> position self \<and>
          crossover (Seq (rsi self)) (Num (buy_threshold self)) \<and>
          (\<exists>p m. py_get (Close self) (- 1) = Inr p \<and> py_get (sma self) (- 1) = Inr m \<and> fgt p m)
          \<longrightarrow> (\<exists>sl tp. out = [OpenLong sl tp])"
    using assms
    by (auto simp: strategy_next_def evaluate_rules_def Let_def split: sum.splits if_splits)
  then show ?thesis
    using strategy_next_cases [OF assms] by auto
qed

theorem one_intent_per_bar_witness:
  "strategy_next (at_bar flat_cross_up 1) = Inr [OpenLong (Fin 97) (Fin 110)] \<and>
   length [OpenLong (Fin 97) (Fin 110)] \<le> 1 \<and>
   CloseLong \<notin> set [OpenLong (Fin 97) (Fin 110)] \<and>
   strategy_next (at_bar long_cross_down 1) = Inr [CloseLong] \<and>
   (\<forall>sl tp. OpenLong sl tp \<notin> set [CloseLong])"
proof -
  have b: "bar_of flat_cross_up 1"
    unfolding flat_cross_up_def by (rule example_bars_bar)
  have b': "bar_of long_cross_down 1"
    unfolding long_cross_down_def by (rule example_bars_bar)
  have r: "strategy_next (at_bar flat_cross_up 1) = Inr [OpenLong (Fin 97) (Fin 110)]"
    using b by (simp add: strategy_next_at_bar)
       (simp add: flat_cross_up_def example_bars_def fgt_def fsub_def)
  have r': "strategy_next (at_bar long_cross_down 1) = Inr [CloseLong]"
    using b' by (simp add: strategy_next_at_bar)
       (simp add: long_cross_down_def example_bars_def fgt_def)
  show ?thesis
    using r r' one_intent_per_bar [OF r] one_intent_per_bar [OF r'] by simp
qed

lemma fgt_finite_left: "fgt (Fin c) m \<Longrightarrow> \<not> isnan m"
  by (cases m) (simp_all add: fgt_def)

lemma levels_at_bar:
  assumes "bar_of s i"
    and "strategy_next (at_bar s i) = Inr out"
    and "OpenLong sl tp \<in> set out"
    and "atr_multiplier_sl s = Fin ms" and "0 < ms"
    and "atr_multiplier_tp s = Fin mt" and "0 < mt"
    and "isfinite (Close s ! i)"
    and "fle (Fin 0) (atr s ! i)"
  shows "\<not> isnan sl \<and> \<not> isnan tp \<and>
         fle sl (Close s ! i) \<and> fle (Close s ! i) tp \<and>
         (flt (Fin 0) (atr s ! i) \<longrightarrow> flt sl (Close s ! i) \<and> flt (Close s ! i) tp)"
proof -
  obtain c where c: "Close s ! i = Fin c"
    using assms(8) by (cases "Close s ! i") simp_all
  have levels: "sl = fsub (Fin c) (fmul (Fin ms) (atr s ! i))"
               "tp = fadd (Fin c) (fmul (Fin mt) (atr s ! i))"
    using assms(1-4,6) c
    by (auto simp: strategy_next_at_bar split: if_splits)
  show ?thesis
  proof (cases "atr s ! i")
    case (Fin a)
    then have "0 \<le> a" using assms(9) by simp
    then have "0 \<le> ms * a" "0 \<le> mt * a" "0 < a \<longrightarrow> 0 < ms * a \<and> 0 < mt * a"
      using assms(5,7) by simp_all
    then show ?thesis
      using Fin by (simp add: levels c fsub_def)
  next
    case PInf
    then show ?thesis using assms(5,7) by (simp add: levels c fsub_def)
  qed (use assms(9) in simp_all)
qed



section \<open>Properties of the indicator engine\<close>

lemma length_rolling_mean: "length (rolling_mean w xs) = length xs"
  by (simp add: rolling_mean_def)

lemma length_ewm_loop: "length (ewm_loop alpha minp st vals) = length vals"
  by (induction vals arbitrary: st) (simp_all add: Let_def)

lemma length_prep_values: "length (prep_values xs) = length xs"
  by (simp add: prep_values_def)

lemma length_ewm_mean: "length (ewm_mean alpha minp vals) = length vals"
proof (cases "prep_values vals")
  case Nil
  then show ?thesis using length_prep_values [of vals] by (simp add: ewm_mean_def)
next
  case (Cons v0 rest)
  then show ?thesis
    using length_prep_values [of vals] by (simp add: ewm_mean_def Let_def length_ewm_loop)
qed

lemma length_series_diff: "length (series_diff xs) = length xs"
  by (cases xs) (simp_all add: series_diff_def)

lemma length_gains: "length (gains xs) = length xs"
  by (simp add: gains_def length_series_diff)

lemma length_losses: "length (losses xs) = length xs"
  by (simp add: losses_def length_series_diff)

lemma rma_eq:
  "rma close len =
     (if length close < effective_length len 10 then None
      else Some (ewm_mean (1 / real (effective_length len 10)) (effective_length len 10) close))"
  by (simp add: rma_def verify_series_def Let_def)

lemma effective_length_int: "0 < n \<Longrightarrow> effective_length (int n) d = n"
  by (simp add: effective_length_def)

lemma effective_length_pos: "0 < d \<Longrightarrow> 0 < effective_length len d"
  by (simp add: effective_length_def)

lemma ta_rsi_eq:
  "ta_rsi close len =
     (let n = effective_length len 14 in
      if length close < n then None
      else Some (map2 rsi_value (ewm_mean (1 / real n) n (gains close))
                                (ewm_mean (1 / real n) n (losses close))))"
proof -
  have pos: "0 < effective_length len 14" by (rule effective_length_pos) simp
  show ?thesis
    using pos
    by (simp add: ta_rsi_def verify_series_def Let_def rma_eq effective_length_int
        length_gains length_losses)
qed

lemma length_ta_rsi: "ta_rsi close len = Some r \<Longrightarrow> length r = length close"
  by (auto simp: ta_rsi_eq Let_def length_ewm_mean length_gains length_losses split: if_splits)

lemma ta_sma_eq:
  "ta_sma close len =
     (if length close < effective_length len 10 then None
      else Some (rolling_mean (effective_length len 10) close))"
  by (simp add: ta_sma_def verify_series_def Let_def)

lemma length_shift: "length (shift xs) = length xs"
  by (cases xs) (simp_all add: shift_def)

lemma length_non_zero_range: "length (non_zero_range high low) = min (length high) (length low)"
  by (simp add: non_zero_range_def Let_def)

lemma length_nan_first: "length (nan_first xs) = length xs"
  by (cases xs) (simp_all add: nan_first_def)

lemma length_true_range:
  "length high = n \<Longrightarrow> length low = n \<Longrightarrow> length close = n \<Longrightarrow>
   length (true_range high low close) = n"
  by (simp add: true_range_def Let_def length_nan_first length_non_zero_range length_shift)

lemma ta_atr_eq:
  assumes "length high = length close" and "length low = length close"
  shows "ta_atr high low close len =
     (let n = effective_length len 14 in
      if length close < n then None
      else Some (ewm_mean (1 / real n) n (true_range high low close)))"
proof -
  have pos: "0 < effective_length len 14" by (rule effective_length_pos) simp
  have "length (true_range high low close) = length close"
    using assms by (simp add: length_true_range)
  then show ?thesis
    using pos assms
    by (simp add: ta_atr_def verify_series_def Let_def rma_eq effective_length_int)
qed

lemma length_hlc3: "wf_data d \<Longrightarrow> length (hlc3 d) = length (Close d)"
  by (simp add: hlc3_def wf_data_def)

lemma length_adjusted_price: "wf_data d \<Longrightarrow> length (adjusted_price d w) = length (Close d)"
  by (simp add: adjusted_price_def normalized_volume_def volume_average_def length_hlc3
      length_rolling_mean wf_data_def)

lemma length_safe_sma: "safe_sma close period = Inr s \<Longrightarrow> length s = length close"
  by (auto simp: safe_sma_def ta_sma_eq length_rolling_mean split: if_splits)

text \<open>
  Claim C5. For a period of at least 1 and fewer close prices than the period,
  \<^verbatim>\<open>safe_sma\<close> raises nothing and returns as many NaN as there are prices.
\<close>

theorem safe_sma_short:
  assumes "1 \<le> period" and "int (length close_prices) < period"
  shows "safe_sma close_prices period = Inr (replicate (length close_prices) NaN)"
  using assms by (simp add: safe_sma_def)

theorem safe_sma_short_witness:
  "safe_sma [Fin 100, Fin 100] 50 = Inr [NaN, NaN]"
  using safe_sma_short [of 50 "[Fin 100, Fin 100]"] by (simp add: numeral_2_eq_2)


lemma strategy_I_Inr: "strategy_I n result = Inr v \<Longrightarrow> length v = n"
  by (auto simp: strategy_I_def split: sum.splits option.splits if_splits)

lemma strategy_init_lengths:
  assumes "strategy_init self = Inr s'"
  shows "length (rsi s') = length (Close self) \<and> length (sma s') = length (Close self) \<and>
         length (atr s') = length (Close self) \<and> Close s' = Close self"
  using assms
  by (auto simp: strategy_init_def Let_def split: sum.splits dest: strategy_I_Inr)

lemma custom_rsi_eq:
  assumes "wf_data d"
  shows "custom_rsi d len =
     (if len < 0 then Inl ValueError
      else if length (Close d) < effective_length len 14 then Inr None
      else Inr (Some (map2 rsi_value
             (ewm_mean (1 / real (effective_length len 14)) (effective_length len 14)
                (gains (adjusted_price d (nat len))))
             (ewm_mean (1 / real (effective_length len 14)) (effective_length len 14)
                (losses (adjusted_price d (nat len)))))))"
  using assms by (simp add: custom_rsi_def ta_rsi_eq Let_def length_adjusted_price)

lemma strategy_init_rsi:
  assumes "wf_data self" and "1 \<le> rsi_period self"
  shows "strategy_I (length (Close self)) (custom_rsi self (rsi_period self)) =
           (if rsi_period self \<le> int (length (Close self))
            then Inr (the (ta_rsi (adjusted_price self (nat (rsi_period self))) (rsi_period self)))
            else Inl ValueError)"
  using assms
  by (auto simp: strategy_I_def custom_rsi_def ta_rsi_eq Let_def length_adjusted_price
      effective_length_def length_ewm_mean length_gains length_losses)

lemma strategy_init_sma:
  assumes "1 \<le> period"
  shows "\<exists>v. strategy_I (length close) (map_sum id Some (safe_sma close period)) = Inr v"
  using assms
  by (auto simp: strategy_I_def safe_sma_def ta_sma_eq effective_length_def length_rolling_mean)

lemma strategy_init_atr:
  assumes "length high = length close" and "length low = length close" and "1 \<le> len"
  shows "strategy_I (length close) (Inr (ta_atr high low close len)) =
           (if len \<le> int (length close)
            then Inr (the (ta_atr high low close len)) else Inl ValueError)"
  using assms
  by (auto simp: strategy_I_def ta_atr_eq Let_def effective_length_def length_ewm_mean
      length_true_range)

text \<open>
  Claim C7, as amended. Take well-formed price data of \<open>n\<close> bars and periods of at
  least 1. When \<^verbatim>\<open>rsi_period\<close> and \<^verbatim>\<open>atr_period\<close> are at most \<open>n\<close>, \<^verbatim>\<open>init\<close> succeeds
  and the RSI, SMA and ATR arrays each have length \<open>n\<close> (whatever the SMA period, also
  one above \<open>n\<close>). Otherwise \<^verbatim>\<open>init\<close> raises \<^verbatim>\<open>ValueError\<close> and there are no series.
\<close>

theorem init_lengths:
  assumes "wf_data self"
    and "1 \<le> rsi_period self" and "1 \<le> sma_period self" and "1 \<le> atr_period self"
  shows "if rsi_period self \<le> int (length (Close self)) \<and>
            atr_period self \<le> int (length (Close self))
         then \<exists>s'. strategy_init self = Inr s' \<and>
                    length (rsi s') = length (Close self) \<and>
                    length (sma s') = length (Close self) \<and>
                    length (atr s') = length (Close self)
         else strategy_init self = Inl ValueError"
proof -
  obtain v where v: "strategy_I (length (Close self))
      (map_sum id Some (safe_sma (Close self) (sma_period self))) = Inr v"
    using strategy_init_sma [OF assms(3)] by blast
  have hl: "length (High self) = length (Close self)" "length (Low self) = length (Close self)"
    using assms(1) by (simp_all add: wf_data_def)
  note r = strategy_init_rsi [OF assms(1,2)]
  note a = strategy_init_atr [OF hl assms(4)]
  show ?thesis
  proof (cases "rsi_period self \<le> int (length (Close self)) \<and>
                atr_period self \<le> int (length (Close self))")
    case True
    then obtain s' where "strategy_init self = Inr s'"
      by (simp add: strategy_init_def Let_def r v a)
    then show ?thesis using True strategy_init_lengths by auto
  next
    case False
    then have "strategy_init self = Inl ValueError"
      by (auto simp: strategy_init_def Let_def r v a)
    then show ?thesis using False by simp
  qed
qed

theorem init_lengths_witness:
  "wf_data six_bars \<and>
   (\<exists>s'. strategy_init six_bars = Inr s' \<and>
         length (rsi s') = length (Close six_bars) \<and>
         length (sma s') = length (Close six_bars) \<and>
         length (atr s') = length (Close six_bars))"
proof -
  have w: "wf_data six_bars" by (simp add: wf_data_def six_bars_def)
  have p: "1 \<le> rsi_period six_bars" "1 \<le> sma_period six_bars" "1 \<le> atr_period six_bars"
    "rsi_period six_bars \<le> int (length (Close six_bars))"
    "atr_period six_bars \<le> int (length (Close six_bars))"
    by (simp_all add: six_bars_def)
  show ?thesis
    using w init_lengths [OF w p(1-3)] p(4,5) by simp
qed

text \<open>
  Claim C7 as stated fails where a window exceeds the data: with two bars and the class
  defaults (RSI 21, SMA 50, ATR 14) \<^verbatim>\<open>custom_rsi\<close> and \<^verbatim>\<open>ta.atr\<close> return \<^verbatim>\<open>None\<close>, not
  a series, and \<^verbatim>\<open>init\<close> raises \<^verbatim>\<open>ValueError\<close>; only \<^verbatim>\<open>safe_sma\<close> returns NaN of
  the data's length.
\<close>

theorem init_short_data_counterexample:
  "wf_data flat_cross_up \<and> length (Close flat_cross_up) = 2 \<and>
   custom_rsi flat_cross_up (rsi_period flat_cross_up) = Inr None \<and>
   safe_sma (Close flat_cross_up) (sma_period flat_cross_up) = Inr [NaN, NaN] \<and>
   ta_atr (High flat_cross_up) (Low flat_cross_up) (Close flat_cross_up)
     (atr_period flat_cross_up) = None \<and>
   strategy_init flat_cross_up = Inl ValueError"
proof -
  have w: "wf_data flat_cross_up"
    by (simp add: wf_data_def flat_cross_up_def example_bars_def)
  have r: "custom_rsi flat_cross_up (rsi_period flat_cross_up) = Inr None"
    by (simp add: custom_rsi_eq [OF w])
       (simp add: flat_cross_up_def example_bars_def effective_length_def)
  have a: "ta_atr (High flat_cross_up) (Low flat_cross_up) (Close flat_cross_up)
     (atr_period flat_cross_up) = None"
    by (simp add: flat_cross_up_def example_bars_def ta_atr_eq effective_length_def)
  have m: "safe_sma (Close flat_cross_up) (sma_period flat_cross_up) = Inr [NaN, NaN]"
    by (simp add: flat_cross_up_def example_bars_def safe_sma_def numeral_2_eq_2)
  have "strategy_init flat_cross_up = Inl ValueError"
    by (simp add: strategy_init_def r strategy_I_def)
  then show ?thesis using w r a m by (simp add: flat_cross_up_def example_bars_def)
qed


lemma ewm_mean_loop:
  "ewm_mean alpha minp vals =
     ewm_loop alpha minp \<lparr>weighted = NaN, old_wt = 1, nobs = 0\<rparr> (prep_values vals)"
proof (cases "prep_values vals")
  case Nil
  then show ?thesis by (simp add: ewm_mean_def)
next
  case (Cons v0 rest)
  have "ewm_step alpha \<lparr>weighted = NaN, old_wt = 1, nobs = 0\<rparr> v0 =
          \<lparr>weighted = v0, old_wt = 1, nobs = (if isnan v0 then 0 else 1)\<rparr>"
    by (cases v0) (simp_all add: ewm_step_def)
  then show ?thesis using Cons by (simp add: ewm_mean_def Let_def)
qed

lemma ewm_loop_nth:
  "i < length vals \<Longrightarrow>
   ewm_loop alpha minp st vals ! i =
     ewm_output minp (foldl (ewm_step alpha) st (take (Suc i) vals))"
proof (induction vals arbitrary: st i)
  case Nil
  then show ?case by simp
next
  case (Cons cur rest)
  show ?case
  proof (cases i)
    case 0
    then show ?thesis by (simp add: Let_def)
  next
    case (Suc k)
    then have "k < length rest" using Cons.prems by simp
    from Cons.IH [OF this] show ?thesis using Suc by (simp add: Let_def)
  qed
qed



lemma ewm_mean_nth:
  assumes "i < length vals"
  shows "ewm_mean alpha minp vals ! i =
     ewm_output minp (foldl (ewm_step alpha) \<lparr>weighted = NaN, old_wt = 1, nobs = 0\<rparr>
        (take (Suc i) (prep_values vals)))"
  using assms by (simp add: ewm_mean_loop ewm_loop_nth prep_values_def)


lemma prep_values_nan: "isnan x \<Longrightarrow> isnan (if isfinite x then x else NaN)"
  by (cases x) simp_all


lemma fsub_nan_left: "fsub NaN y = NaN" by (simp add: fsub_def)

lemma length_window:
  "i < length xs \<Longrightarrow> length (window w xs i) = min (Suc i) w"
  by (auto simp: window_def)

lemma rolling_mean_nth:
  "i < length xs \<Longrightarrow>
   rolling_mean w xs ! i =
     (let win = window w (prep_values xs) i in
      if length win = w \<and> (\<forall>x \<in> set win. \<not> isnan x)
      then fdiv (fsum win) (Fin (real w)) else NaN)"
  by (simp add: rolling_mean_def)

lemma rolling_mean_warm_up:
  assumes "i < length xs" and "Suc i < w"
  shows "rolling_mean w xs ! i = NaN"
proof -
  have "length (window w (prep_values xs) i) = Suc i"
    using assms by (simp add: length_window length_prep_values)
  then show ?thesis using assms by (simp add: rolling_mean_nth Let_def)
qed

lemma adjusted_price_nth:
  assumes "wf_data d" and "i < length (Close d)"
  shows "adjusted_price d w ! i =
           fmul (fdiv (fadd (fadd (High d ! i) (Low d ! i)) (Close d ! i)) (Fin 3))
                (fdiv (Volume d ! i) (volume_average d w ! i))"
  using assms
  by (simp add: adjusted_price_def normalized_volume_def volume_average_def hlc3_def
      wf_data_def length_rolling_mean)


lemma series_diff_nth:
  "i < length xs \<Longrightarrow>
   series_diff xs ! i = (if i = 0 then NaN else fsub (xs ! i) (xs ! (i - 1)))"
  by (cases xs; cases i) (simp_all add: series_diff_def)

lemma gains_nth:
  "i < length xs \<Longrightarrow>
   gains xs ! i = (let d = series_diff xs ! i in if flt d (Fin 0) then Fin 0 else d)"
  by (simp add: gains_def length_series_diff Let_def)

lemma losses_nth:
  "i < length xs \<Longrightarrow>
   losses xs ! i = (let d = series_diff xs ! i in if fgt d (Fin 0) then Fin 0 else d)"
  by (simp add: losses_def length_series_diff Let_def)


lemma custom_rsi_nth:
  assumes "wf_data d" and "custom_rsi d len = Inr (Some r)" and "i < length r"
  shows "r ! i = rsi_value
           (ewm_mean (1 / real (effective_length len 14)) (effective_length len 14)
              (gains (adjusted_price d (nat len))) ! i)
           (ewm_mean (1 / real (effective_length len 14)) (effective_length len 14)
              (losses (adjusted_price d (nat len))) ! i)"
  using assms
  by (auto simp: custom_rsi_eq length_ewm_mean length_gains length_losses split: if_splits)

lemma length_custom_rsi:
  assumes "wf_data d" and "custom_rsi d len = Inr (Some r)"
  shows "length r = length (Close d)"
  using assms
  by (auto simp: custom_rsi_eq length_ewm_mean length_gains length_losses
      length_adjusted_price split: if_splits)



lemma ewm_step_signed:
  assumes "alpha \<le> 1" and "signed_state sg st" and "signed_value sg cur"
  shows "signed_state sg (ewm_step alpha st cur)"
proof (cases cur)
  case NaN
  then show ?thesis
    using assms by (auto simp: signed_state_def ewm_step_def Let_def mult_nonneg_nonneg)
next
  case (Fin c)
  then have c: "0 \<le> sg * c" using assms(3) by (simp add: signed_value_def)
  have ow: "0 \<le> old_wt st" "0 \<le> old_wt st * (1 - alpha)"
    using assms(1,2) by (simp_all add: signed_state_def)
  show ?thesis
  proof (cases "nobs st = 0")
    case True
    then show ?thesis
      using assms(2) Fin c ow by (simp add: signed_state_def ewm_step_def Let_def)
  next
    case False
    then obtain w where w: "weighted st = Fin w" "0 \<le> sg * w"
      using assms(2) by (auto simp: signed_state_def)
    have pos: "0 < old_wt st * (1 - alpha) + 1" using ow by linarith
    have "0 \<le> sg * ((old_wt st * (1 - alpha) * w + c) / (old_wt st * (1 - alpha) + 1))"
    proof -
      have "0 \<le> old_wt st * (1 - alpha) * (sg * w) + sg * c"
        using ow(2) w(2) c by (simp add: mult_nonneg_nonneg)
      then have "0 \<le> sg * (old_wt st * (1 - alpha) * w + c)"
        by (simp add: algebra_simps)
      then show ?thesis using pos by (simp add: zero_le_divide_iff)
    qed
    then show ?thesis
      using w Fin c ow pos by (simp add: signed_state_def ewm_step_def Let_def)
  qed
qed (use assms(3) in \<open>simp_all add: signed_value_def\<close>)


lemma ewm_foldl_signed:
  assumes "alpha \<le> 1" and "signed_state sg st" and "\<forall>x \<in> set xs. signed_value sg x"
  shows "signed_state sg (foldl (ewm_step alpha) st xs)"
  using assms(2,3)
  by (induction xs arbitrary: st) (simp_all add: ewm_step_signed [OF assms(1)])

lemma signed_state_init: "signed_state sg \<lparr>weighted = NaN, old_wt = 1, nobs = 0\<rparr>"
  by (simp add: signed_state_def)























lemma nth_in_window:
  assumes "i < length ys" and "0 < w"
  shows "ys ! i \<in> set (window w ys i)"
proof -
  have "length (window w ys i) = min (Suc i) w" using assms(1) by (rule length_window)
  then have ne: "window w ys i \<noteq> []" using assms(2) by auto
  have "last (window w ys i) = last (take (Suc i) ys)"
    using ne unfolding window_def by (simp add: last_drop)
  also have "\<dots> = ys ! i"
    using assms(1) by (simp add: take_Suc_conv_app_nth)
  finally show ?thesis using ne last_in_set by metis
qed














lemma prefix_nth:
  "take (Suc i) xs = take (Suc i) ys \<Longrightarrow> j \<le> i \<Longrightarrow> xs ! j = ys ! j"
  by (metis le_imp_less_Suc nth_take)

lemma prefix_shorter:
  "take (Suc i) xs = take (Suc i) ys \<Longrightarrow> j \<le> i \<Longrightarrow> take (Suc j) xs = take (Suc j) ys"
  by (metis min.absorb1 Suc_le_mono take_take)

lemma prefix_eqI:
  assumes "i < length xs" and "i < length ys" and "\<And>j. j \<le> i \<Longrightarrow> xs ! j = ys ! j"
  shows "take (Suc i) xs = take (Suc i) ys"
  by (rule nth_equalityI) (use assms in \<open>simp_all add: min_absorb2 Suc_leI\<close>)

lemma rolling_mean_prefix:
  assumes "i < length xs" and "i < length ys" and "take (Suc i) xs = take (Suc i) ys"
  shows "rolling_mean w xs ! i = rolling_mean w ys ! i"
proof -
  have "take (Suc i) (prep_values xs) = take (Suc i) (prep_values ys)"
    using assms(3) by (simp add: prep_values_def take_map)
  then have "window w (prep_values xs) i = window w (prep_values ys) i"
    by (simp add: window_def)
  then show ?thesis using assms(1,2) by (simp add: rolling_mean_nth)
qed

lemma ewm_mean_prefix:
  assumes "i < length xs" and "i < length ys" and "take (Suc i) xs = take (Suc i) ys"
  shows "ewm_mean alpha minp xs ! i = ewm_mean alpha minp ys ! i"
proof -
  have "take (Suc i) (prep_values xs) = take (Suc i) (prep_values ys)"
    using assms(3) by (simp add: prep_values_def take_map)
  then show ?thesis using assms(1,2) by (simp add: ewm_mean_nth)
qed

lemma gains_losses_prefix:
  assumes "i < length xs" and "i < length ys" and "take (Suc i) xs = take (Suc i) ys"
  shows "take (Suc i) (gains xs) = take (Suc i) (gains ys)"
    and "take (Suc i) (losses xs) = take (Suc i) (losses ys)"
proof -
  have d: "series_diff xs ! j = series_diff ys ! j" if "j \<le> i" for j
  proof -
    have "xs ! j = ys ! j" "xs ! (j - 1) = ys ! (j - 1)"
      using assms(3) that by (auto intro: prefix_nth)
    then show ?thesis using that assms(1,2) by (simp add: series_diff_nth)
  qed
  show "take (Suc i) (gains xs) = take (Suc i) (gains ys)"
    by (rule prefix_eqI) (use assms(1,2) d in \<open>simp_all add: length_gains gains_nth\<close>)
  show "take (Suc i) (losses xs) = take (Suc i) (losses ys)"
    by (rule prefix_eqI) (use assms(1,2) d in \<open>simp_all add: length_losses losses_nth\<close>)
qed

lemma agree_upto_shorter: "agree_upto d1 d2 i \<Longrightarrow> j \<le> i \<Longrightarrow> agree_upto d1 d2 j"
  unfolding agree_upto_def by (blast intro: prefix_shorter)

lemma agree_upto_nth:
  assumes "agree_upto d1 d2 i" and "j \<le> i"
  shows "High d1 ! j = High d2 ! j" "Low d1 ! j = Low d2 ! j" "Close d1 ! j = Close d2 ! j"
    "Volume d1 ! j = Volume d2 ! j"
  using assms unfolding agree_upto_def by (blast intro: prefix_nth)+

lemma adjusted_price_prefix:
  assumes "wf_data d1" and "wf_data d2" and "agree_upto d1 d2 i"
    and "i < length (Close d1)" and "i < length (Close d2)"
  shows "take (Suc i) (adjusted_price d1 w) = take (Suc i) (adjusted_price d2 w)"
proof (rule prefix_eqI)
  show "i < length (adjusted_price d1 w)" "i < length (adjusted_price d2 w)"
    using assms by (simp_all add: length_adjusted_price)
next
  fix j assume j: "j \<le> i"
  have "take (Suc j) (Volume d1) = take (Suc j) (Volume d2)"
    using agree_upto_shorter [OF assms(3) j] by (simp add: agree_upto_def)
  then have "volume_average d1 w ! j = volume_average d2 w ! j"
    unfolding volume_average_def
    using assms(1,2,4,5) j by (intro rolling_mean_prefix) (simp_all add: wf_data_def)
  then show "adjusted_price d1 w ! j = adjusted_price d2 w ! j"
    using assms(1,2,4,5) j agree_upto_nth [OF assms(3) j] by (simp add: adjusted_price_nth)
qed

lemma custom_rsi_prefix:
  assumes "wf_data d1" and "wf_data d2" and "agree_upto d1 d2 i"
    and "i < length (Close d1)" and "i < length (Close d2)"
    and "custom_rsi d1 len = Inr (Some r1)" and "custom_rsi d2 len = Inr (Some r2)"
  shows "r1 ! i = r2 ! i"
proof -
  note adj = adjusted_price_prefix [OF assms(1-5), of "nat len"]
  have la: "i < length (adjusted_price d1 (nat len))" "i < length (adjusted_price d2 (nat len))"
    using assms(1,2,4,5) by (simp_all add: length_adjusted_price)
  note gl = gains_losses_prefix [OF la adj]
  have "ewm_mean alpha n (gains (adjusted_price d1 (nat len))) ! i =
        ewm_mean alpha n (gains (adjusted_price d2 (nat len))) ! i" for alpha n
    using la gl(1) by (intro ewm_mean_prefix) (simp_all add: length_gains)
  moreover have "ewm_mean alpha n (losses (adjusted_price d1 (nat len))) ! i =
        ewm_mean alpha n (losses (adjusted_price d2 (nat len))) ! i" for alpha n
    using la gl(2) by (intro ewm_mean_prefix) (simp_all add: length_losses)
  moreover have "i < length r1" "i < length r2"
    using assms by (simp_all add: length_custom_rsi)
  ultimately show ?thesis
    using custom_rsi_nth [OF assms(1,6)] custom_rsi_nth [OF assms(2,7)] by simp
qed

lemma safe_sma_prefix:
  assumes "i < length c1" and "i < length c2" and "take (Suc i) c1 = take (Suc i) c2"
    and "safe_sma c1 period = Inr m1" and "safe_sma c2 period = Inr m2"
  shows "m1 ! i = m2 ! i"
proof -
  have val: "m ! i = (if int (length c) < period then NaN
                      else rolling_mean (effective_length period 10) c ! i)"
    if "safe_sma c period = Inr m" "i < length c" for c m
    using that by (auto simp: safe_sma_def ta_sma_eq split: if_splits)
  have short: "rolling_mean (effective_length period 10) c' ! i = NaN"
    if "int (length c) < period" "i < length c" "i < length c'" for c c' :: "float64 list"
  proof -
    have "Suc i < effective_length period 10"
      using that(1,2) by (simp add: effective_length_def)
    then show ?thesis using that(3) by (simp add: rolling_mean_warm_up)
  qed
  have "rolling_mean (effective_length period 10) c1 ! i =
        rolling_mean (effective_length period 10) c2 ! i"
    using assms(1-3) by (rule rolling_mean_prefix)
  then show ?thesis
    using val [OF assms(4,1)] val [OF assms(5,2)] short [of c1 c2] short [of c2 c1] assms(1,2)
    by (auto split: if_splits)
qed

lemma shift_nth:
  assumes "j < length xs"
  shows "shift xs ! j = (if j = 0 then NaN else xs ! (j - 1))"
proof -
  have "xs \<noteq> []" using assms by auto
  then have s: "shift xs = NaN # butlast xs"
    by (cases xs) (simp_all add: shift_def del: butlast.simps)
  show ?thesis
  proof (cases j)
    case 0
    then show ?thesis by (simp add: s)
  next
    case (Suc k)
    then have "k < length (butlast xs)" using assms by simp
    then show ?thesis using Suc by (simp add: s nth_butlast)
  qed
qed

lemma nan_first_nth:
  "j < length xs \<Longrightarrow> nan_first xs ! j = (if j = 0 then NaN else xs ! j)"
  by (cases xs; cases j) (simp_all add: nan_first_def)

lemma non_zero_range_nth:
  assumes "j < length high" and "j < length low"
  shows "non_zero_range high low ! j =
           (if \<exists>x \<in> set (map2 fsub high low). x = Fin 0
            then fadd (fsub (high ! j) (low ! j)) (Fin epsilon)
            else fsub (high ! j) (low ! j))"
  using assms by (simp add: non_zero_range_def Let_def)

lemma true_range_nth:
  assumes "length high = n" and "length low = n" and "length close = n" and "j < n"
  shows "true_range high low close ! j =
           (if j = 0 then NaN
            else fmax (fmax (fabs (non_zero_range high low ! j))
                            (fabs (fsub (high ! j) (close ! (j - 1)))))
                      (fabs (fsub (close ! (j - 1)) (low ! j))))"
  using assms
  by (simp add: true_range_def Let_def nan_first_nth length_non_zero_range length_shift shift_nth)

lemma true_range_prefix:
  assumes "wf_data d1" and "wf_data d2" and "agree_upto d1 d2 i"
    and "i < length (Close d1)" and "i < length (Close d2)"
    and "has_zero_range d1 = has_zero_range d2"
  shows "take (Suc i) (true_range (High d1) (Low d1) (Close d1)) =
         take (Suc i) (true_range (High d2) (Low d2) (Close d2))"
proof (rule prefix_eqI)
  show "i < length (true_range (High d1) (Low d1) (Close d1))"
    "i < length (true_range (High d2) (Low d2) (Close d2))"
    using assms(1,2,4,5) by (simp_all add: length_true_range wf_data_def)
next
  fix j assume j: "j \<le> i"
  have l1: "length (High d1) = length (Close d1)" "length (Low d1) = length (Close d1)"
    and l2: "length (High d2) = length (Close d2)" "length (Low d2) = length (Close d2)"
    using assms(1,2) by (simp_all add: wf_data_def)
  have j1: "j < length (Close d1)" and j2: "j < length (Close d2)"
    using j assms(4,5) by simp_all
  have here: "High d1 ! j = High d2 ! j" "Low d1 ! j = Low d2 ! j"
    using agree_upto_nth [OF assms(3) j] by simp_all
  have before: "Close d1 ! (j - 1) = Close d2 ! (j - 1)"
    using agree_upto_nth(3) [OF assms(3), of "j - 1"] j by simp
  have "non_zero_range (High d1) (Low d1) ! j = non_zero_range (High d2) (Low d2) ! j"
    using assms(6) here j1 j2 l1 l2
    by (simp add: non_zero_range_nth has_zero_range_def)
  then show "true_range (High d1) (Low d1) (Close d1) ! j =
             true_range (High d2) (Low d2) (Close d2) ! j"
    using true_range_nth [OF l1 refl j1] true_range_nth [OF l2 refl j2] here before by simp
qed

lemma ta_atr_prefix:
  assumes "wf_data d1" and "wf_data d2" and "agree_upto d1 d2 i"
    and "i < length (Close d1)" and "i < length (Close d2)"
    and "has_zero_range d1 = has_zero_range d2"
    and "ta_atr (High d1) (Low d1) (Close d1) len = Some a1"
    and "ta_atr (High d2) (Low d2) (Close d2) len = Some a2"
  shows "a1 ! i = a2 ! i"
proof -
  have l1: "length (High d1) = length (Close d1)" "length (Low d1) = length (Close d1)"
    and l2: "length (High d2) = length (Close d2)" "length (Low d2) = length (Close d2)"
    using assms(1,2) by (simp_all add: wf_data_def)
  have a1: "a1 = ewm_mean (1 / real (effective_length len 14)) (effective_length len 14)
                   (true_range (High d1) (Low d1) (Close d1))"
    using assms(7) by (auto simp: ta_atr_eq [OF l1] Let_def split: if_splits)
  have a2: "a2 = ewm_mean (1 / real (effective_length len 14)) (effective_length len 14)
                   (true_range (High d2) (Low d2) (Close d2))"
    using assms(8) by (auto simp: ta_atr_eq [OF l2] Let_def split: if_splits)
  show ?thesis
    unfolding a1 a2
    by (rule ewm_mean_prefix)
       (use assms(4,5) l1 l2 true_range_prefix [OF assms(1-6)] in
         \<open>simp_all add: length_true_range\<close>)
qed

lemma strategy_init_fields:
  assumes "strategy_init s = Inr t"
  shows "custom_rsi s (rsi_period s) = Inr (Some (rsi t))"
    and "safe_sma (Close s) (sma_period s) = Inr (sma t)"
    and "ta_atr (High s) (Low s) (Close s) (atr_period s) = Some (atr t)"
    and "Close t = Close s" and "position t = position s"
    and "same_parameters t s"
    and "length (rsi t) = length (Close s)" and "length (sma t) = length (Close s)"
    and "length (atr t) = length (Close s)"
  using assms
  by (auto simp: strategy_init_def strategy_I_def Let_def same_parameters_def map_sum_def
      split: sum.splits option.splits if_splits)

lemma two_bars_init:
  "strategy_init two_bars =
     Inr (two_bars\<lparr>rsi := [NaN, Fin 100], sma := [Fin (9 / 4), Fin (9 / 4)],
                   atr := [NaN, Fin (1 / 2)]\<rparr>)"
  by code_simp

lemma three_bars_init:
  "strategy_init three_bars =
     Inr (three_bars\<lparr>rsi := [NaN, Fin 100, Fin 100], sma := [Fin (9 / 4), Fin (9 / 4), Fin 3],
                     atr := [NaN, Fin (1 / 2 + 1 / 2 ^ 52), Fin (3 / 4)]\<rparr>)"
  by code_simp

lemma three_bars_wide_init:
  "strategy_init three_bars_wide =
     Inr (three_bars_wide\<lparr>rsi := [NaN, Fin 100, Fin 100],
                          sma := [Fin (9 / 4), Fin (9 / 4), Fin 3],
                          atr := [NaN, Fin (1 / 2), Fin (7 / 4)]\<rparr>)"
  by code_simp

lemma strategy_next_same:
  assumes "bar_of t1 i" and "bar_of t2 i" and "same_parameters t1 t2"
    and "position t1 = position t2" and "Close t1 ! i = Close t2 ! i"
    and "sma t1 ! i = sma t2 ! i" and "atr t1 ! i = atr t2 ! i"
    and "rsi t1 ! i = rsi t2 ! i" and "1 \<le> i \<longrightarrow> rsi t1 ! (i - 1) = rsi t2 ! (i - 1)"
  shows "strategy_next (at_bar t1 i) = strategy_next (at_bar t2 i)"
  using assms(3-9)
  by (cases "1 \<le> i")
     (simp_all add: strategy_next_at_bar [OF assms(1)] strategy_next_at_bar [OF assms(2)]
        same_parameters_def)

text \<open>
  Claim C9, as amended. Take two well-formed price series that agree on the bars \<open>0..i\<close>,
  run with the same parameters and the same position state, on both of which \<^verbatim>\<open>init\<close>
  succeeds. The RSI and the SMA at index \<open>i\<close> are the same in both runs. If moreover
  both series, or neither, have a bar whose high equals its low, the ATR at \<open>i\<close> is the
  same and \<^verbatim>\<open>next\<close> at bar \<open>i\<close> issues the same requests.
\<close>

theorem no_look_ahead:
  assumes "wf_data s1" and "wf_data s2" and "agree_upto s1 s2 i"
    and "i < length (Close s1)" and "i < length (Close s2)"
    and "same_parameters s1 s2" and "position s1 = position s2"
    and "strategy_init s1 = Inr t1" and "strategy_init s2 = Inr t2"
  shows "rsi t1 ! i = rsi t2 ! i \<and> sma t1 ! i = sma t2 ! i \<and>
         (has_zero_range s1 = has_zero_range s2 \<longrightarrow>
            atr t1 ! i = atr t2 ! i \<and>
            strategy_next (at_bar t1 i) = strategy_next (at_bar t2 i))"
proof -
  note f1 = strategy_init_fields [OF assms(8)]
  note f2 = strategy_init_fields [OF assms(9)]
  have par: "rsi_period s1 = rsi_period s2" "sma_period s1 = sma_period s2"
    "atr_period s1 = atr_period s2"
    using assms(6) by (simp_all add: same_parameters_def)
  have r: "rsi t1 ! j = rsi t2 ! j" if "j \<le> i" for j
    using that assms(4,5) f1(1) f2(1)
    by (intro custom_rsi_prefix [OF assms(1,2) agree_upto_shorter [OF assms(3) that],
          of "rsi_period s1"]) (simp_all add: par)
  have c: "take (Suc i) (Close s1) = take (Suc i) (Close s2)"
    using assms(3) by (simp add: agree_upto_def)
  have m: "sma t1 ! i = sma t2 ! i"
    using safe_sma_prefix [OF assms(4,5) c, of "sma_period s1"] f1(2) f2(2) by (simp add: par)
  have rest: "atr t1 ! i = atr t2 ! i \<and> strategy_next (at_bar t1 i) = strategy_next (at_bar t2 i)"
    if z: "has_zero_range s1 = has_zero_range s2"
  proof -
    have a: "atr t1 ! i = atr t2 ! i"
      using ta_atr_prefix [OF assms(1-5) z, of "atr_period s1"] f1(3) f2(3) by (simp add: par)
    have b1: "bar_of t1 i" and b2: "bar_of t2 i"
      using assms(4,5) f1(4,7-9) f2(4,7-9) by (simp_all add: bar_of_def)
    have sp: "same_parameters t1 t2"
      using f1(6) f2(6) assms(6) by (simp add: same_parameters_def)
    have cl: "Close t1 ! i = Close t2 ! i"
      using prefix_nth [OF c, of i] f1(4) f2(4) by simp
    have "strategy_next (at_bar t1 i) = strategy_next (at_bar t2 i)"
      using b1 b2 sp
      by (rule strategy_next_same) (use assms(7) f1(5) f2(5) cl m a r in simp_all)
    then show ?thesis using a by simp
  qed
  show ?thesis using r [of i] m rest by simp
qed

theorem no_look_ahead_witness:
  "agree_upto two_bars three_bars_wide 1 \<and>
   has_zero_range two_bars = has_zero_range three_bars_wide \<and>
   (\<exists>t1 t2. strategy_init two_bars = Inr t1 \<and> strategy_init three_bars_wide = Inr t2 \<and>
      rsi t1 ! 1 = rsi t2 ! 1 \<and> sma t1 ! 1 = sma t2 ! 1 \<and> atr t1 ! 1 = atr t2 ! 1 \<and>
      strategy_next (at_bar t1 1) = strategy_next (at_bar t2 1))"
proof -
  have w1: "wf_data two_bars" and w2: "wf_data three_bars_wide"
    by (simp_all add: wf_data_def two_bars_def three_bars_wide_def three_bars_def)
  have ag: "agree_upto two_bars three_bars_wide 1"
    by (simp add: agree_upto_def two_bars_def three_bars_wide_def three_bars_def)
  have i1: "1 < length (Close two_bars)" and i2: "1 < length (Close three_bars_wide)"
    by (simp_all add: two_bars_def three_bars_wide_def three_bars_def)
  have sp: "same_parameters two_bars three_bars_wide"
    by (simp add: same_parameters_def two_bars_def three_bars_wide_def three_bars_def)
  have po: "position two_bars = position three_bars_wide"
    by (simp add: two_bars_def three_bars_wide_def three_bars_def)
  have z: "has_zero_range two_bars = has_zero_range three_bars_wide"
    by (simp add: has_zero_range_def two_bars_def three_bars_wide_def three_bars_def fsub_def)
  show ?thesis
    using no_look_ahead [OF w1 w2 ag i1 i2 sp po two_bars_init three_bars_wide_init] ag z
    by (intro conjI exI [of _ "two_bars\<lparr>rsi := [NaN, Fin 100],
          sma := [Fin (9 / 4), Fin (9 / 4)], atr := [NaN, Fin (1 / 2)]\<rparr>"]
        exI [of _ "three_bars_wide\<lparr>rsi := [NaN, Fin 100, Fin 100],
          sma := [Fin (9 / 4), Fin (9 / 4), Fin 3], atr := [NaN, Fin (1 / 2), Fin (7 / 4)]\<rparr>"]
        two_bars_init three_bars_wide_init) blast+
qed

text \<open>
  Claim C9 as stated fails for the ATR. The two series below agree on the bars 0 and 1
  and run with the same parameters; the second has a third bar whose high equals its
  low, so \<^verbatim>\<open>non_zero_range\<close> adds the machine epsilon to every high-low range of that
  series, and its ATR at bar 1 is \<open>0.5 + 2\<^sup>-\<^sup>5\<^sup>2\<close> where the first series has \<open>0.5\<close>.
\<close>

theorem atr_look_ahead_counterexample:
  "agree_upto two_bars three_bars 1 \<and> same_parameters two_bars three_bars \<and>
   position two_bars = position three_bars \<and>
   strategy_init two_bars =
     Inr (two_bars\<lparr>rsi := [NaN, Fin 100], sma := [Fin (9 / 4), Fin (9 / 4)],
                   atr := [NaN, Fin (1 / 2)]\<rparr>) \<and>
   strategy_init three_bars =
     Inr (three_bars\<lparr>rsi := [NaN, Fin 100, Fin 100], sma := [Fin (9 / 4), Fin (9 / 4), Fin 3],
                     atr := [NaN, Fin (1 / 2 + 1 / 2 ^ 52), Fin (3 / 4)]\<rparr>) \<and>
   [NaN, Fin (1 / 2)] ! 1 \<noteq> [NaN, Fin (1 / 2 + 1 / 2 ^ 52), Fin (3 / 4)] ! 1"
proof -
  have "agree_upto two_bars three_bars 1"
    by (simp add: agree_upto_def two_bars_def three_bars_def)
  moreover have "same_parameters two_bars three_bars"
    by (simp add: same_parameters_def two_bars_def three_bars_def)
  moreover have "position two_bars = position three_bars"
    by (simp add: two_bars_def three_bars_def)
  moreover have "[NaN, Fin (1 / 2)] ! 1 \<noteq> [NaN, Fin (1 / 2 + 1 / 2 ^ 52), Fin (3 / 4)] ! 1"
    by simp
  ultimately show ?thesis
    using two_bars_init three_bars_init by blast
qed

subsection \<open>The levels of a buy in a run\<close>

text \<open>
  In a run the two hypotheses made above on the bar of a buy hold by themselves: the
  ATR of pandas_ta is NaN or not negative, whatever the data, and where the SMA is a
  number the close of that bar is finite. So every buy issued at a bar of a run whose
  multipliers are positive has its levels around the close.
\<close>

lemma fmax_cases: "fmax x y = x \<or> fmax x y = y"
  by (cases x; cases y) simp_all

lemma fabs_range: "fabs x = NaN \<or> fabs x = PInf \<or> (\<exists>a. fabs x = Fin a \<and> 0 \<le> a)"
  by (cases x) simp_all

lemma set_nan_first: "set (nan_first xs) \<subseteq> insert NaN (set xs)"
  by (cases xs) (auto simp: nan_first_def)

lemma true_range_values:
  assumes "x \<in> set (true_range high low close)"
  shows "x = NaN \<or> x = PInf \<or> (\<exists>a. x = Fin a \<and> 0 \<le> a)"
proof (cases "x = NaN")
  case True
  then show ?thesis by simp
next
  case False
  define ranges where
    "ranges = zip (non_zero_range high low)
                (zip (map2 fsub high (shift close)) (map2 fsub (shift close) low))"
  have "x \<in> insert NaN
          (set (map (\<lambda>(r1, r2, r3). fmax (fmax (fabs r1) (fabs r2)) (fabs r3)) ranges))"
    using assms set_nan_first unfolding true_range_def Let_def ranges_def by blast
  then obtain r1 r2 r3 where x: "x = fmax (fmax (fabs r1) (fabs r2)) (fabs r3)"
    using False by auto
  have "x = fabs r1 \<or> x = fabs r2 \<or> x = fabs r3"
    using fmax_cases [of "fmax (fabs r1) (fabs r2)" "fabs r3"] fmax_cases [of "fabs r1" "fabs r2"]
    unfolding x by auto
  then show ?thesis
    using fabs_range [of r1] fabs_range [of r2] fabs_range [of r3] by auto
qed

lemma ewm_mean_signed:
  assumes "alpha \<le> 1" and "i < length vals"
    and "\<forall>x \<in> set vals. signed_value sg (if isfinite x then x else NaN)"
  shows "signed_value sg (ewm_mean alpha minp vals ! i)"
proof -
  define st where
    "st = foldl (ewm_step alpha) \<lparr>weighted = NaN, old_wt = 1, nobs = 0\<rparr>
            (take (Suc i) (prep_values vals))"
  have "\<forall>x \<in> set (take (Suc i) (prep_values vals)). signed_value sg x"
  proof
    fix x assume "x \<in> set (take (Suc i) (prep_values vals))"
    then have "x \<in> set (prep_values vals)" by (rule in_set_takeD)
    then obtain y where "y \<in> set vals" "x = (if isfinite y then y else NaN)"
      by (auto simp: prep_values_def)
    then show "signed_value sg x" using assms(3) by simp
  qed
  then have "signed_state sg st"
    unfolding st_def by (intro ewm_foldl_signed assms(1) signed_state_init)
  then have "signed_value sg (ewm_output minp st)"
    by (auto simp: signed_state_def signed_value_def ewm_output_def split: if_splits)
  then show ?thesis using assms(2) by (simp add: ewm_mean_nth st_def)
qed

lemma ta_atr_not_negative:
  assumes "length high = length close" and "length low = length close"
    and "ta_atr high low close len = Some a" and "i < length a"
  shows "a ! i = NaN \<or> (\<exists>v. a ! i = Fin v \<and> 0 \<le> v)"
proof -
  define n where "n = effective_length len 14"
  have n: "0 < n" unfolding n_def by (rule effective_length_pos) simp
  have a: "a = ewm_mean (1 / real n) n (true_range high low close)"
    using assms(3) by (auto simp: ta_atr_eq [OF assms(1,2)] Let_def n_def split: if_splits)
  have "\<forall>x \<in> set (true_range high low close). signed_value 1 (if isfinite x then x else NaN)"
  proof
    fix x assume "x \<in> set (true_range high low close)"
    then have "x = NaN \<or> x = PInf \<or> (\<exists>a. x = Fin a \<and> 0 \<le> a)"
      by (rule true_range_values)
    then show "signed_value 1 (if isfinite x then x else NaN)"
      by (auto simp: signed_value_def)
  qed
  then have "signed_value 1 (a ! i)"
    unfolding a using n assms(4) by (intro ewm_mean_signed) (simp_all add: a length_ewm_mean)
  then show ?thesis by (simp add: signed_value_def)
qed

lemma rolling_mean_defined_finite:
  assumes "i < length xs" and "0 < w" and "rolling_mean w xs ! i \<noteq> NaN"
  shows "isfinite (xs ! i)"
proof -
  have "\<forall>x \<in> set (window w (prep_values xs) i). \<not> isnan x"
    using assms(1,3) by (auto simp: rolling_mean_nth Let_def split: if_splits)
  moreover have "prep_values xs ! i \<in> set (window w (prep_values xs) i)"
    by (rule nth_in_window) (use assms(1,2) in \<open>simp_all add: length_prep_values\<close>)
  ultimately have "\<not> isnan (prep_values xs ! i)" by blast
  then show ?thesis using assms(1) by (auto simp: prep_values_def split: if_splits)
qed

lemma safe_sma_defined_finite:
  assumes "safe_sma c period = Inr m" and "i < length c" and "\<not> isnan (m ! i)"
  shows "isfinite (c ! i)"
proof -
  have w: "0 < effective_length period 10" by (rule effective_length_pos) simp
  have "m ! i = (if int (length c) < period then NaN
                 else rolling_mean (effective_length period 10) c ! i)"
    using assms(1,2) by (auto simp: safe_sma_def ta_sma_eq split: if_splits)
  then have "rolling_mean (effective_length period 10) c ! i \<noteq> NaN"
    using assms(3) by (auto split: if_splits)
  then show ?thesis using assms(2) w by (intro rolling_mean_defined_finite)
qed

lemma open_long_levels_in_run:
  assumes "wf_data s" and "strategy_init s = Inr t" and "i < length (Close s)"
    and "strategy_next (at_bar (t\<lparr>position := p\<rparr>) i) = Inr out"
    and "OpenLong sl tp \<in> set out"
    and "atr_multiplier_sl s = Fin ms" and "0 < ms"
    and "atr_multiplier_tp s = Fin mt" and "0 < mt"
  shows "\<not> isnan sl \<and> \<not> isnan tp \<and>
         fle sl (Close s ! i) \<and> fle (Close s ! i) tp \<and>
         (flt (Fin 0) (atr t ! i) \<longrightarrow> flt sl (Close s ! i) \<and> flt (Close s ! i) tp)"
proof -
  note f = strategy_init_fields [OF assms(2)]
  define t' where "t' = t\<lparr>position := p\<rparr>"
  have b: "bar_of t' i"
    using assms(3) f(4,7-9) by (simp add: bar_of_def t'_def)
  have next': "strategy_next (at_bar t' i) = Inr out"
    using assms(4) by (simp add: t'_def)
  have "\<not> isnan (sma t' ! i) \<and> \<not> isnan (atr t' ! i)"
    using next' assms(5) by (auto simp: strategy_next_at_bar [OF b] split: if_splits)
  then have ready: "\<not> isnan (sma t ! i)" "\<not> isnan (atr t ! i)"
    by (simp_all add: t'_def)
  have fin: "isfinite (Close s ! i)"
    using f(2) assms(3) ready(1) by (rule safe_sma_defined_finite)
  have hl: "length (High s) = length (Close s)" "length (Low s) = length (Close s)"
    using assms(1) by (simp_all add: wf_data_def)
  have "atr t ! i = NaN \<or> (\<exists>v. atr t ! i = Fin v \<and> 0 \<le> v)"
    using hl f(3) by (rule ta_atr_not_negative) (use assms(3) f(9) in simp)
  then have nonneg: "fle (Fin 0) (atr t ! i)"
    using ready(2) by auto
  have par: "atr_multiplier_sl t' = Fin ms" "atr_multiplier_tp t' = Fin mt"
    using f(6) assms(6,8) by (simp_all add: same_parameters_def t'_def)
  have "\<not> isnan sl \<and> \<not> isnan tp \<and>
         fle sl (Close t' ! i) \<and> fle (Close t' ! i) tp \<and>
         (flt (Fin 0) (atr t' ! i) \<longrightarrow> flt sl (Close t' ! i) \<and> flt (Close t' ! i) tp)"
    using b next' assms(5) par(1) assms(7) par(2) assms(9)
    by (rule levels_at_bar) (use fin nonneg f(4) in \<open>simp_all add: t'_def\<close>)
  then show ?thesis by (simp add: t'_def f(4))
qed

end
